theory Spec2Isabelle
  imports Complex_Main
begin

section \<open>Decoded JSON values and Python errors\<close>

text \<open>
  The two scripts (\<^verbatim>\<open>generate-dashboard.py\<close>, called the dashboard script, and
  \<^verbatim>\<open>tools/visualization/visualize-benchmark-results.py\<close>, called the visualization
  script) work on whatever \<^verbatim>\<open>json.load\<close> returns. A decoded value is modelled by
  \<open>json\<close>; a dict is an association list read with \<open>map_of\<close>.

  Text: a \<open>char\<close> stands for the code point of its number, so a \<open>string\<close> is a Python
  string of code points below 256; text with other code points is not in the type.

  Numbers: Python's \<^verbatim>\<open>int\<close> is \<open>int\<close>. Python's \<^verbatim>\<open>float\<close> is idealised as an
  exact \<open>real\<close> within the range of finite floats: rounding is not part of the model,
  the range is. The exceptions that leaving the range raises are modelled; where a
  float would become infinite or nan, where the result depends on the interpreter's
  version, where numpy's behaviour on nested sequences would be needed, or where the
  plotting library is handed values that are no numbers, the model stops with
  \<open>Unmodelled\<close>, which is not a Python exception but the border of the model.
\<close>

datatype json =
    JNull
  | JBool bool
  | JInt int
  | JFloat real
  | JStr string
  | JList "json list"
  | JObj "(string \<times> json) list"

datatype error =
  KeyError | ValueError | TypeError | AttributeError | IndexError | OverflowError | Unmodelled

text \<open>Truthiness of a value, as \<^verbatim>\<open>if not data\<close> and \<^verbatim>\<open>if x\<close> test it.\<close>

fun truthy :: "json \<Rightarrow> bool" where
  "truthy JNull = False"
| "truthy (JBool b) = b"
| "truthy (JInt i) = (i \<noteq> 0)"
| "truthy (JFloat r) = (r \<noteq> 0)"
| "truthy (JStr s) = (s \<noteq> [])"
| "truthy (JList xs) = (xs \<noteq> [])"
| "truthy (JObj kvs) = (kvs \<noteq> [])"

text \<open>Lists and dicts are unhashable: they cannot be keys of a Counter or a defaultdict.\<close>

fun hashable :: "json \<Rightarrow> bool" where
  "hashable (JList xs) = False"
| "hashable (JObj kvs) = False"
| "hashable v = True"

section \<open>String operations of the Python library\<close>

text \<open>\<^verbatim>\<open>s.replace(old, new)\<close>: all non-overlapping occurrences, left to right.\<close>

function py_replace :: "string \<Rightarrow> string \<Rightarrow> string \<Rightarrow> string" where
  "py_replace old new s =
     (if old = [] then new @ concat (map (\<lambda>c. c # new) s)
      else if s = [] then []
      else if take (length old) s = old then new @ py_replace old new (drop (length old) s)
      else hd s # py_replace old new (tl s))"
  by pat_completeness auto
termination
  by (relation "measure (\<lambda>(old, new, s). length s)") (auto simp: Suc_le_eq)

declare py_replace.simps [simp del]

text \<open>\<^verbatim>\<open>s.split(sep)\<close> for a one-character separator: one part more than separators.\<close>

fun py_split :: "char \<Rightarrow> string \<Rightarrow> string list" where
  "py_split sep [] = [[]]"
| "py_split sep (c # cs) =
     (if c = sep then [] # py_split sep cs
      else (c # hd (py_split sep cs)) # tl (py_split sep cs))"

text \<open>
  The whitespace that \<^verbatim>\<open>int\<close> and \<^verbatim>\<open>float\<close> skip around a number: the ASCII characters
  0x09-0x0D and 0x20, and the two further whitespace code points below 256, 0x85 and
  0xA0. (The separators 0x1C-0x1F, which \<^verbatim>\<open>str.strip\<close> removes, are not skipped.)
\<close>

definition is_space :: "char \<Rightarrow> bool" where
  "is_space c = (c \<in> set [CHR 0x09, CHR 0x0A, CHR 0x0B, CHR 0x0C, CHR 0x0D, CHR 0x20,
                           CHR 0x85, CHR 0xA0])"

text \<open>The string between the whitespace that the two conversions skip at both ends.\<close>

definition py_strip :: "string \<Rightarrow> string" where
  "py_strip s = rev (dropWhile is_space (rev (dropWhile is_space s)))"

definition digit_val :: "char \<Rightarrow> nat option" where
  "digit_val c =
     (let n = (of_char c :: nat) in if 48 \<le> n \<and> n \<le> 57 then Some (n - 48) else None)"

text \<open>
  A digit part: one or more decimal digits, single underscores allowed between two
  digits. The result is the list of digit values.
\<close>

fun dec_digits :: "string \<Rightarrow> nat list option" where
  "dec_digits [] = None"
| "dec_digits [c] = (case digit_val c of None \<Rightarrow> None | Some d \<Rightarrow> Some [d])"
| "dec_digits (c # u # cs) =
     (case digit_val c of
        None \<Rightarrow> None
      | Some d \<Rightarrow>
          (case dec_digits (if u = CHR ''_'' then cs else u # cs) of
             None \<Rightarrow> None
           | Some ds \<Rightarrow> Some (d # ds)))"

definition digits_value :: "nat list \<Rightarrow> nat" where
  "digits_value ds = foldl (\<lambda>a d. 10 * a + d) 0 ds"

text \<open>An optional sign in front of the rest: the factor and the rest.\<close>

fun split_sign :: "string \<Rightarrow> int \<times> string" where
  "split_sign [] = (1, [])"
| "split_sign (c # cs) =
     (if c = CHR ''-'' then (- 1, cs) else if c = CHR ''+'' then (1, cs) else (1, c # cs))"

text \<open>
  \<^verbatim>\<open>int(s)\<close> on a string, base 10: surrounding whitespace, an optional sign, a digit
  part. \<open>IntInvalid\<close> is Python's ValueError for a string of any other shape.
  \<open>IntTooLong\<close> is a string of the right shape with more than 4300 digits: ValueError
  in an interpreter that limits the length of such strings (the default from CPython
  3.11 on), the value in one that does not.
\<close>

datatype int_parse = IntValue int | IntTooLong | IntInvalid

definition py_int :: "string \<Rightarrow> int_parse" where
  "py_int s =
     (case split_sign (py_strip s) of
        (sg, r) \<Rightarrow>
          (case dec_digits r of
             None \<Rightarrow> IntInvalid
           | Some ds \<Rightarrow>
               if length ds > 4300 then IntTooLong
               else IntValue (sg * int (digits_value ds))))"

text \<open>
  The least magnitude that no longer rounds to a finite float: halfway between the
  largest float and \<open>2 ^ 1024\<close>.
\<close>

definition float_limit :: int where
  "float_limit = 2 ^ 1024 - 2 ^ 970"

text \<open>
  \<^verbatim>\<open>a / b\<close> on two integers, for \<open>b\<close> not zero: the quotient as a float, OverflowError
  when it is out of range.
\<close>

definition true_div :: "int \<Rightarrow> int \<Rightarrow> error + real" where
  "true_div a b =
     (if \<bar>real_of_int a / real_of_int b\<bar> \<ge> real_of_int float_limit then Inl OverflowError
      else Inr (real_of_int a / real_of_int b))"

text \<open>
  An integer as the operand of float arithmetic: OverflowError when it is out of range.
\<close>

definition int_to_float :: "int \<Rightarrow> error + real" where
  "int_to_float i =
     (if \<bar>i\<bar> \<ge> float_limit then Inl OverflowError else Inr (real_of_int i))"

text \<open>
  The result of float additions and multiplications, which never raise: the exact
  value while it stays below \<open>2 ^ 1023\<close>, where no rounding can reach the end of the
  range; beyond that the float may be infinite.
\<close>

definition float_result :: "real \<Rightarrow> error + real" where
  "float_result x = (if \<bar>x\<bar> < 2 ^ 1023 then Inr x else Inl Unmodelled)"

text \<open>
  \<^verbatim>\<open>float(s)\<close> on a string: surrounding whitespace, an optional sign, then either one of
  the words inf, infinity, nan (any case), or a decimal mantissa (digit parts around an
  optional point, at least one of them present) with an optional exponent. The
  conversion never raises on a number that is out of range: it returns an infinite
  float, which is \<open>FloatNonFinite\<close> as for the three words.
\<close>

datatype float_parse = FloatValue real | FloatNonFinite | FloatInvalid

definition in_float_range :: "real \<Rightarrow> float_parse" where
  "in_float_range x =
     (if \<bar>x\<bar> \<ge> real_of_int float_limit then FloatNonFinite else FloatValue x)"


definition lower :: "char \<Rightarrow> char" where
  "lower c =
     (let n = (of_char c :: nat) in if 65 \<le> n \<and> n \<le> 90 then char_of (n + 32) else c)"

text \<open>An optional digit part: the empty string counts as no digits.\<close>

definition opt_digits :: "string \<Rightarrow> nat list option" where
  "opt_digits s = (if s = [] then Some [] else dec_digits s)"

definition parse_mantissa :: "string \<Rightarrow> real option" where
  "parse_mantissa m =
     (let ip = takeWhile (\<lambda>c. c \<noteq> CHR ''.'') m;
          rest = dropWhile (\<lambda>c. c \<noteq> CHR ''.'') m
      in if rest = [] then
           (case dec_digits ip of None \<Rightarrow> None | Some ds \<Rightarrow> Some (real (digits_value ds)))
         else
           (case (opt_digits ip, opt_digits (tl rest)) of
              (Some ids, Some fds) \<Rightarrow>
                if ids = [] \<and> fds = [] then None
                else Some (real (digits_value ids)
                           + real (digits_value fds) / 10 ^ length fds)
            | _ \<Rightarrow> None))"

definition parse_exponent :: "string \<Rightarrow> int option" where
  "parse_exponent e =
     (case split_sign e of
        (sg, r) \<Rightarrow>
          (case dec_digits r of
             None \<Rightarrow> None
           | Some ds \<Rightarrow> Some (sg * int (digits_value ds))))"

definition is_e :: "char \<Rightarrow> bool" where
  "is_e c = (c = CHR ''e'' \<or> c = CHR ''E'')"

definition py_float :: "string \<Rightarrow> float_parse" where
  "py_float s =
     (case split_sign (py_strip s) of
        (sg, r) \<Rightarrow>
          if map lower r \<in> set [''inf'', ''infinity'', ''nan''] then FloatNonFinite
          else
            (let m = takeWhile (\<lambda>c. \<not> is_e c) r;
                 rest = dropWhile (\<lambda>c. \<not> is_e c) r
             in case parse_mantissa m of
                  None \<Rightarrow> FloatInvalid
                | Some v \<Rightarrow>
                    if rest = [] then in_float_range (real_of_int sg * v)
                    else
                      (case parse_exponent (tl rest) of
                         None \<Rightarrow> FloatInvalid
                       | Some x \<Rightarrow>
                           in_float_range (real_of_int sg * v *
                             (if 0 \<le> x then 10 ^ nat x else 1 / 10 ^ nat (- x))))))"

text \<open>\<^verbatim>\<open>p in s\<close> on two strings: \<open>p\<close> occurs in \<open>s\<close> as a contiguous piece.\<close>

fun is_substring :: "string \<Rightarrow> string \<Rightarrow> bool" where
  "is_substring p [] = (p = [])"
| "is_substring p (c # cs) = (take (length p) (c # cs) = p \<or> is_substring p cs)"

section \<open>Dict and sequence access\<close>

text \<open>\<^verbatim>\<open>for item in data\<close>: the items a value yields when iterated.\<close>

fun py_iter :: "json \<Rightarrow> error + json list" where
  "py_iter (JList xs) = Inr xs"
| "py_iter (JObj kvs) = Inr (map (\<lambda>kv. JStr (fst kv)) kvs)"
| "py_iter (JStr s) = Inr (map (\<lambda>c. JStr [c]) s)"
| "py_iter v = Inl TypeError"

text \<open>\<^verbatim>\<open>key in item\<close> for a string key.\<close>

fun py_contains :: "string \<Rightarrow> json \<Rightarrow> error + bool" where
  "py_contains k (JObj kvs) = Inr (map_of kvs k \<noteq> None)"
| "py_contains k (JStr s) = Inr (is_substring k s)"
| "py_contains k (JList xs) = Inr (JStr k \<in> set xs)"
| "py_contains k v = Inl TypeError"

text \<open>\<^verbatim>\<open>item[key]\<close> for a string key: only a dict can be read that way.\<close>

fun py_getitem :: "json \<Rightarrow> string \<Rightarrow> error + json" where
  "py_getitem (JObj kvs) k = (case map_of kvs k of None \<Rightarrow> Inl KeyError | Some v \<Rightarrow> Inr v)"
| "py_getitem v k = Inl TypeError"

text \<open>\<^verbatim>\<open>item.get(key, default)\<close> on a dict.\<close>

definition dict_get :: "(string \<times> json) list \<Rightarrow> string \<Rightarrow> json \<Rightarrow> json" where
  "dict_get kvs k d = (case map_of kvs k of None \<Rightarrow> d | Some v \<Rightarrow> v)"

text \<open>\<^verbatim>\<open>xs[i]\<close> for a list and an index that is never negative here.\<close>

definition py_index :: "'a list \<Rightarrow> nat \<Rightarrow> error + 'a" where
  "py_index xs i = (if i < length xs then Inr (xs ! i) else Inl IndexError)"

section \<open>The dashboard script: \<^verbatim>\<open>analyze_data\<close>\<close>

text \<open>
  The result dict of \<^verbatim>\<open>analyze_data\<close>. Its keys \<^verbatim>\<open>keyword_frequencies\<close>,
  \<^verbatim>\<open>keyword_economic_values\<close>, \<^verbatim>\<open>keyword_processing_times\<close> and \<^verbatim>\<open>disagreements\<close> are
  never written or read after their creation and are left out.
\<close>

record results =
  sk_frequencies :: "json list"
  sk_economic_values :: "json list"
  sk_processing_times :: "real list"
  goals :: "json list"
  contexts :: "json list"
  timestamps :: "json list"
  successful :: "json list"

definition empty_results :: results where
  "empty_results = \<lparr>sk_frequencies = [], sk_economic_values = [], sk_processing_times = [],
     goals = [], contexts = [], timestamps = [], successful = []\<rparr>"

text \<open>
  Lines 73-80, the handler: the colon format. A string that has not exactly three parts
  gives 0. With three parts the seconds are converted first, then the hours and the
  minutes; the integer \<^verbatim>\<open>int(hours) * 3600 + int(minutes) * 60\<close> becomes a float when the
  seconds are added. Nothing of what these conversions raise is caught.
\<close>

definition timespan_ms :: "string \<Rightarrow> error + real" where
  "timespan_ms s =
     (let time_parts = py_split CHR '':'' s in
      if length time_parts = 3 then
        (case py_float (time_parts ! 2) of
           FloatInvalid \<Rightarrow> Inl ValueError
         | FloatNonFinite \<Rightarrow> Inl Unmodelled
         | FloatValue seconds \<Rightarrow>
             (case py_int (time_parts ! 0) of
                IntInvalid \<Rightarrow> Inl ValueError
              | IntTooLong \<Rightarrow> Inl Unmodelled
              | IntValue hours \<Rightarrow>
                  (case py_int (time_parts ! 1) of
                     IntInvalid \<Rightarrow> Inl ValueError
                   | IntTooLong \<Rightarrow> Inl Unmodelled
                   | IntValue minutes \<Rightarrow>
                       (case int_to_float (hours * 3600 + minutes * 60) of
                          Inl e \<Rightarrow> Inl e
                        | Inr whole \<Rightarrow> float_result ((whole + seconds) * 1000)))))
      else Inr 0)"

text \<open>
  Lines 68-80: the value of \<^verbatim>\<open>ms\<close> for the value stored under \<^verbatim>\<open>ExecutionTime\<close>. The
  bare \<^verbatim>\<open>except\<close> catches whatever the tick attempt raises: the ValueError of \<^verbatim>\<open>int\<close>,
  the OverflowError of the division, or the AttributeError of \<^verbatim>\<open>.replace\<close> on a value
  that is no string, for which the handler's \<^verbatim>\<open>.split\<close> raises AttributeError again.
\<close>

definition dash_execution_time :: "json \<Rightarrow> error + real" where
  "dash_execution_time v =
     (case v of
        JStr s \<Rightarrow>
          (case py_int (py_replace '' Ticks'' [] s) of
             IntInvalid \<Rightarrow> timespan_ms s
           | IntTooLong \<Rightarrow> Inl Unmodelled
           | IntValue ticks \<Rightarrow>
               (case true_div ticks 10000 of
                  Inl e \<Rightarrow> timespan_ms s
                | Inr ms \<Rightarrow> Inr ms))
      | _ \<Rightarrow> Inl AttributeError)"

text \<open>Lines 51-82: the body of the loop for an item that is a dict with the frequency key.\<close>

definition dash_store :: "results \<Rightarrow> (string \<times> json) list \<Rightarrow> json \<Rightarrow> error + results" where
  "dash_store r kvs frequency =
     (let r' = r\<lparr>sk_frequencies := sk_frequencies r @ [frequency],
                  sk_economic_values := sk_economic_values r @ [dict_get kvs ''EconomicValue'' (JInt 0)],
                  goals := goals r @ [dict_get kvs ''Goal'' (JStr [])],
                  contexts := contexts r @ [dict_get kvs ''Context'' (JStr [])],
                  timestamps := timestamps r @ [dict_get kvs ''Timestamp'' (JStr [])],
                  successful := successful r @ [dict_get kvs ''WasSuccessful'' (JBool True)]\<rparr>
      in case map_of kvs ''ExecutionTime'' of
           None \<Rightarrow> Inr r'
         | Some v \<Rightarrow>
             (case dash_execution_time v of
                Inl e \<Rightarrow> Inl e
              | Inr ms \<Rightarrow> Inr (r'\<lparr>sk_processing_times := sk_processing_times r' @ [ms]\<rparr>)))"

text \<open>Lines 46-82: one pass of the loop body.\<close>

definition dash_analyze_item :: "results \<Rightarrow> json \<Rightarrow> error + results" where
  "dash_analyze_item r item =
     (case py_contains ''RecommendedFrequency'' item of
        Inl e \<Rightarrow> Inl e
      | Inr False \<Rightarrow> Inr r
      | Inr True \<Rightarrow>
          (case py_getitem item ''RecommendedFrequency'' of
             Inl e \<Rightarrow> Inl e
           | Inr frequency \<Rightarrow>
               (case item of JObj kvs \<Rightarrow> dash_store r kvs frequency | _ \<Rightarrow> Inl AttributeError)))"

fun dash_loop :: "results \<Rightarrow> json list \<Rightarrow> error + results" where
  "dash_loop r [] = Inr r"
| "dash_loop r (item # items) =
     (case dash_analyze_item r item of Inl e \<Rightarrow> Inl e | Inr r' \<Rightarrow> dash_loop r' items)"

definition dash_analyze_data :: "json \<Rightarrow> error + results" where
  "dash_analyze_data data =
     (case py_iter data of Inl e \<Rightarrow> Inl e | Inr items \<Rightarrow> dash_loop empty_results items)"

section \<open>The visualization script: \<^verbatim>\<open>analyze_data\<close>\<close>

text \<open>
  Its result dict; \<^verbatim>\<open>keyword_frequencies\<close>, \<^verbatim>\<open>keyword_economic_values\<close>,
  \<^verbatim>\<open>keyword_processing_times\<close>, \<^verbatim>\<open>agreements\<close> and \<^verbatim>\<open>disagreements\<close> stay empty and
  are left out.
\<close>

record vresults =
  v_sk_frequencies :: "json list"
  v_sk_economic_values :: "json list"
  v_sk_processing_times :: "real list"

definition empty_vresults :: vresults where
  "empty_vresults = \<lparr>v_sk_frequencies = [], v_sk_economic_values = [],
     v_sk_processing_times = []\<rparr>"

text \<open>Lines 56-57: ticks only, and nothing is caught.\<close>

definition viz_execution_time :: "json \<Rightarrow> error + real" where
  "viz_execution_time v =
     (case v of
        JStr s \<Rightarrow>
          (case py_int (py_replace '' Ticks'' [] s) of
             IntInvalid \<Rightarrow> Inl ValueError
           | IntTooLong \<Rightarrow> Inl Unmodelled
           | IntValue ticks \<Rightarrow> true_div ticks 10000)
      | _ \<Rightarrow> Inl AttributeError)"

text \<open>Lines 45-58, for a dict with the frequency key: \<^verbatim>\<open>item['Goal']\<close> comes first.\<close>

definition viz_store :: "vresults \<Rightarrow> (string \<times> json) list \<Rightarrow> json \<Rightarrow> error + vresults" where
  "viz_store r kvs frequency =
     (case map_of kvs ''Goal'' of
        None \<Rightarrow> Inl KeyError
      | Some goal \<Rightarrow>
          (let r' = r\<lparr>v_sk_frequencies := v_sk_frequencies r @ [frequency],
                       v_sk_economic_values :=
                         v_sk_economic_values r @ [dict_get kvs ''EconomicValue'' (JInt 0)]\<rparr>
           in case map_of kvs ''ExecutionTime'' of
                None \<Rightarrow> Inr r'
              | Some v \<Rightarrow>
                  (case viz_execution_time v of
                     Inl e \<Rightarrow> Inl e
                   | Inr ms \<Rightarrow>
                       Inr (r'\<lparr>v_sk_processing_times := v_sk_processing_times r' @ [ms]\<rparr>))))"

definition viz_analyze_item :: "vresults \<Rightarrow> json \<Rightarrow> error + vresults" where
  "viz_analyze_item r item =
     (case py_contains ''RecommendedFrequency'' item of
        Inl e \<Rightarrow> Inl e
      | Inr False \<Rightarrow> Inr r
      | Inr True \<Rightarrow>
          (case py_getitem item ''RecommendedFrequency'' of
             Inl e \<Rightarrow> Inl e
           | Inr frequency \<Rightarrow>
               (case item of JObj kvs \<Rightarrow> viz_store r kvs frequency | _ \<Rightarrow> Inl TypeError)))"

fun viz_loop :: "vresults \<Rightarrow> json list \<Rightarrow> error + vresults" where
  "viz_loop r [] = Inr r"
| "viz_loop r (item # items) =
     (case viz_analyze_item r item of Inl e \<Rightarrow> Inl e | Inr r' \<Rightarrow> viz_loop r' items)"

definition viz_analyze_data :: "json \<Rightarrow> error + vresults" where
  "viz_analyze_data data =
     (case py_iter data of Inl e \<Rightarrow> Inl e | Inr items \<Rightarrow> viz_loop empty_vresults items)"

section \<open>Counter, defaultdict, sum and mean\<close>

text \<open>The fixed list that every chart function writes out again.\<close>

definition frequencies :: "string list" where
  "frequencies = [''immediate'', ''continuous'', ''analysis'', ''optimization'', ''evolution'']"

text \<open>
  \<^verbatim>\<open>Counter(xs)\<close> hashes every element, so it raises TypeError on a list or a dict. The
  counter is kept as the list of what was counted; \<^verbatim>\<open>.get(freq, 0)\<close> is only ever called
  with one of the five strings, and a string key equals string elements only.
\<close>

definition Counter :: "json list \<Rightarrow> error + json list" where
  "Counter xs = (if list_all hashable xs then Inr xs else Inl TypeError)"

definition counter_get :: "json list \<Rightarrow> string \<Rightarrow> nat" where
  "counter_get c k = count_list c (JStr k)"

text \<open>
  The \<^verbatim>\<open>defaultdict(list)\<close> filled from \<^verbatim>\<open>zip(frequencies, values)\<close>: the pairs in input
  order once every key is hashed, and \<^verbatim>\<open>.get(freq, [])\<close> for a string key.
\<close>

definition group_by_freq :: "(json \<times> 'a) list \<Rightarrow> error + (json \<times> 'a) list" where
  "group_by_freq ps = (if list_all (\<lambda>p. hashable (fst p)) ps then Inr ps else Inl TypeError)"

definition group_get :: "(json \<times> 'a) list \<Rightarrow> string \<Rightarrow> 'a list" where
  "group_get g k = map snd (filter (\<lambda>p. fst p = JStr k) g)"

text \<open>The numeric reading of a value: booleans count as 0 and 1.\<close>

fun num_of :: "json \<Rightarrow> real option" where
  "num_of (JBool b) = Some (if b then 1 else 0)"
| "num_of (JInt i) = Some (real_of_int i)"
| "num_of (JFloat x) = Some x"
| "num_of v = None"

fun nums :: "json list \<Rightarrow> real list option" where
  "nums [] = Some []"
| "nums (v # vs) =
     (case num_of v of
        None \<Rightarrow> None
      | Some x \<Rightarrow> (case nums vs of None \<Rightarrow> None | Some xs \<Rightarrow> Some (x # xs)))"

fun is_JList :: "json \<Rightarrow> bool" where
  "is_JList (JList xs) = True"
| "is_JList v = False"

definition mean :: "real list \<Rightarrow> real" where
  "mean xs = sum_list xs / real (length xs)"

text \<open>
  \<^verbatim>\<open>np.mean\<close> of a list of decoded values: the mean of numbers and booleans, TypeError on
  strings, nulls and dicts. The empty list (nan) and nested lists are outside the model.
\<close>

definition np_mean :: "json list \<Rightarrow> error + real" where
  "np_mean vs =
     (if vs = [] \<or> list_ex is_JList vs then Inl Unmodelled
      else (case nums vs of None \<Rightarrow> Inl TypeError | Some xs \<Rightarrow> Inr (mean xs)))"

text \<open>The builtin \<^verbatim>\<open>sum\<close>, starting from the integer 0.\<close>

definition py_sum :: "json list \<Rightarrow> error + real" where
  "py_sum vs = (case nums vs of None \<Rightarrow> Inl TypeError | Some xs \<Rightarrow> Inr (sum_list xs))"

text \<open>A loop that appends one computed value per element and stops at the first error.\<close>

fun map_err :: "('a \<Rightarrow> error + 'b) \<Rightarrow> 'a list \<Rightarrow> error + 'b list" where
  "map_err f [] = Inr []"
| "map_err f (x # xs) =
     (case f x of
        Inl e \<Rightarrow> Inl e
      | Inr y \<Rightarrow> (case map_err f xs of Inl e \<Rightarrow> Inl e | Inr ys \<Rightarrow> Inr (y # ys)))"

section \<open>The dashboard script: charts and the HTML document\<close>

text \<open>
  A chart is modelled by the numbers handed to the plotting library: the bars in the
  order drawn, and the text labels put on them. Pixels, colours and the base64 text of
  the image are not modelled.
\<close>

record frequency_chart_data =
  bar_heights :: "(string \<times> nat) list"
  count_labels :: "(string \<times> nat) list"
  percent_labels :: "(string \<times> real) list"

record bar_chart_data =
  bars :: "(string \<times> real) list"
  value_labels :: "(string \<times> real) list"

definition bar_chart :: "real list \<Rightarrow> bar_chart_data" where
  "bar_chart vals =
     \<lparr>bars = zip frequencies vals,
      value_labels = filter (\<lambda>p. snd p > 0) (zip frequencies vals)\<rparr>"

text \<open>Lines 94-133.\<close>

definition create_frequency_chart :: "results \<Rightarrow> error + frequency_chart_data" where
  "create_frequency_chart r =
     (case Counter (sk_frequencies r) of
        Inl e \<Rightarrow> Inl e
      | Inr sk_freq_count \<Rightarrow>
          (let sk_counts = map (counter_get sk_freq_count) frequencies;
               n = sum_list sk_counts;
               positive = filter (\<lambda>p. snd p > 0) (zip frequencies sk_counts)
           in Inr \<lparr>bar_heights = zip frequencies sk_counts,
                   count_labels = positive,
                   percent_labels =
                     map (\<lambda>p. (fst p, real (snd p) / real n * 100)) positive\<rparr>))"

text \<open>Lines 135-172.\<close>

definition create_economic_chart :: "results \<Rightarrow> error + bar_chart_data" where
  "create_economic_chart r =
     (case group_by_freq (zip (sk_frequencies r) (sk_economic_values r)) of
        Inl e \<Rightarrow> Inl e
      | Inr freq_values \<Rightarrow>
          (case map_err (\<lambda>freq. let vals = group_get freq_values freq
                                in if vals \<noteq> [] then np_mean vals else Inr 0) frequencies of
             Inl e \<Rightarrow> Inl e
           | Inr avg_values \<Rightarrow> Inr (bar_chart avg_values)))"

text \<open>
  The averages of lines 184-193 (and of lines 187-195 of the visualization script): the
  times are paired with the frequencies by position in the two lists.
\<close>

definition avg_times_by_freq :: "json list \<Rightarrow> real list \<Rightarrow> error + real list" where
  "avg_times_by_freq freqs tms =
     (case group_by_freq (zip freqs tms) of
        Inl e \<Rightarrow> Inl e
      | Inr freq_times \<Rightarrow>
          Inr (map (\<lambda>freq. let ts = group_get freq_times freq
                            in if ts \<noteq> [] then mean ts else 0) frequencies))"

text \<open>Lines 174-213: \<open>None\<close> when there is no processing time at all.\<close>

definition create_processing_time_chart :: "results \<Rightarrow> error + bar_chart_data option" where
  "create_processing_time_chart r =
     (if sk_processing_times r = [] then Inr None
      else (case avg_times_by_freq (sk_frequencies r) (sk_processing_times r) of
              Inl e \<Rightarrow> Inl e
            | Inr avg_times \<Rightarrow> Inr (Some (bar_chart avg_times))))"

text \<open>Line 229: \<^verbatim>\<open>sum(successes) / len(successes) * 100\<close>.\<close>

definition rate_of :: "json list \<Rightarrow> error + real" where
  "rate_of successes =
     (case py_sum successes of
        Inl e \<Rightarrow> Inl e
      | Inr n \<Rightarrow> Inr (n / real (length successes) * 100))"

text \<open>Lines 215-252.\<close>

definition create_success_rate_chart :: "results \<Rightarrow> error + bar_chart_data" where
  "create_success_rate_chart r =
     (case group_by_freq (zip (sk_frequencies r) (successful r)) of
        Inl e \<Rightarrow> Inl e
      | Inr freq_success \<Rightarrow>
          (case map_err (\<lambda>freq. let successes = group_get freq_success freq
                                in if successes \<noteq> [] then rate_of successes else Inr 0)
                  frequencies of
             Inl e \<Rightarrow> Inl e
           | Inr success_rates \<Rightarrow> Inr (bar_chart success_rates)))"

text \<open>
  The document of lines 254-545, as the values that are formatted into it: the four
  charts, the four metric cards, one breakdown row per frequency (name, count,
  percentage) and the rows of the sample table.
\<close>

record sample_row =
  row_goal :: json
  row_context :: json
  row_frequency :: json
  row_economic_value :: json
  row_success :: bool

record dashboard =
  frequency_chart :: frequency_chart_data
  economic_chart :: bar_chart_data
  processing_time_chart :: "bar_chart_data option"
  success_chart :: bar_chart_data
  total_decisions :: nat
  avg_economic_value :: real
  avg_processing_time :: real
  success_rate :: real
  freq_metrics_html :: "(string \<times> nat \<times> real) list"
  sample_decisions_html :: "sample_row list"

text \<open>Lines 274-276: one breakdown row.\<close>

definition freq_metric :: "json list \<Rightarrow> nat \<Rightarrow> string \<Rightarrow> string \<times> nat \<times> real" where
  "freq_metric freq_distribution n freq =
     (let cnt = counter_get freq_distribution freq
      in (freq, cnt, if n > 0 then real cnt / real n * 100 else 0))"

text \<open>Lines 290-294: one row of the sample table.\<close>

definition sample_decision :: "results \<Rightarrow> nat \<Rightarrow> error + sample_row" where
  "sample_decision r i =
     (case py_index (goals r) i of
        Inl e \<Rightarrow> Inl e
      | Inr goal \<Rightarrow>
          (case py_index (sk_frequencies r) i of
             Inl e \<Rightarrow> Inl e
           | Inr frequency \<Rightarrow>
               (case py_index (sk_economic_values r) i of
                  Inl e \<Rightarrow> Inl e
                | Inr economic_value \<Rightarrow>
                    (case py_index (successful r) i of
                       Inl e \<Rightarrow> Inl e
                     | Inr success \<Rightarrow>
                         Inr \<lparr>row_goal = goal,
                              row_context =
                                (if i < length (contexts r) then contexts r ! i else JStr []),
                              row_frequency = frequency,
                              row_economic_value = economic_value,
                              row_success = truthy success\<rparr>))))"

definition generate_html_dashboard :: "results \<Rightarrow> error + dashboard" where
  "generate_html_dashboard r =
     (case create_frequency_chart r of Inl e \<Rightarrow> Inl e | Inr fc \<Rightarrow>
      case create_economic_chart r of Inl e \<Rightarrow> Inl e | Inr ec \<Rightarrow>
      case create_processing_time_chart r of Inl e \<Rightarrow> Inl e | Inr pc \<Rightarrow>
      case create_success_rate_chart r of Inl e \<Rightarrow> Inl e | Inr sc \<Rightarrow>
      case (if sk_economic_values r \<noteq> [] then np_mean (sk_economic_values r) else Inr 0) of
        Inl e \<Rightarrow> Inl e | Inr avg_ev \<Rightarrow>
      case (if successful r \<noteq> [] then rate_of (successful r) else Inr 0) of
        Inl e \<Rightarrow> Inl e | Inr rate \<Rightarrow>
      case Counter (sk_frequencies r) of Inl e \<Rightarrow> Inl e | Inr freq_distribution \<Rightarrow>
      case map_err (sample_decision r) [0 ..< min 10 (length (goals r))] of
        Inl e \<Rightarrow> Inl e | Inr rows \<Rightarrow>
      Inr \<lparr>frequency_chart = fc,
           economic_chart = ec,
           processing_time_chart = pc,
           success_chart = sc,
           total_decisions = length (sk_frequencies r),
           avg_economic_value = avg_ev,
           avg_processing_time =
             (if sk_processing_times r \<noteq> [] then mean (sk_processing_times r) else 0),
           success_rate = rate,
           freq_metrics_html =
             map (freq_metric freq_distribution (length (sk_frequencies r))) frequencies,
           sample_decisions_html = rows\<rparr>)"

section \<open>The visualization script: the four images\<close>

text \<open>Lines 85-133: as in the dashboard, but every bar gets its count label.\<close>

definition create_frequency_distribution :: "vresults \<Rightarrow> error + frequency_chart_data" where
  "create_frequency_distribution r =
     (case Counter (v_sk_frequencies r) of
        Inl e \<Rightarrow> Inl e
      | Inr sk_freq_count \<Rightarrow>
          (let sk_counts = map (counter_get sk_freq_count) frequencies;
               total_sk = sum_list sk_counts;
               positive = filter (\<lambda>p. snd p > 0) (zip frequencies sk_counts)
           in Inr \<lparr>bar_heights = zip frequencies sk_counts,
                   count_labels = zip frequencies sk_counts,
                   percent_labels =
                     map (\<lambda>p. (fst p, real (snd p) / real total_sk * 100)) positive\<rparr>))"

text \<open>
  Lines 135-176: the box plot has one box per frequency that has data, labelled with the
  mean. \<open>None\<close> is the early return after "No economic value data to visualize", which
  writes no file. \<^verbatim>\<open>plt.boxplot\<close> is modelled for integer and float values; what the
  plotting library does with anything else is outside the model.
\<close>

record box_plot_data =
  boxes :: "(string \<times> json list) list"
  mean_labels :: "(string \<times> real) list"

fun is_number :: "json \<Rightarrow> bool" where
  "is_number (JInt i) = True"
| "is_number (JFloat x) = True"
| "is_number v = False"

definition boxplot :: "(string \<times> json list) list \<Rightarrow> error + unit" where
  "boxplot valid =
     (if list_all (\<lambda>p. list_all is_number (snd p)) valid then Inr () else Inl Unmodelled)"

definition mean_label :: "string \<times> json list \<Rightarrow> error + string \<times> real" where
  "mean_label p = (case np_mean (snd p) of Inl e \<Rightarrow> Inl e | Inr m \<Rightarrow> Inr (fst p, m))"

definition create_economic_value_distribution :: "vresults \<Rightarrow> error + box_plot_data option" where
  "create_economic_value_distribution r =
     (case group_by_freq (zip (v_sk_frequencies r) (v_sk_economic_values r)) of
        Inl e \<Rightarrow> Inl e
      | Inr freq_values \<Rightarrow>
          (let valid = filter (\<lambda>p. snd p \<noteq> [])
                         (map (\<lambda>freq. (freq, group_get freq_values freq)) frequencies)
           in if valid = [] then Inr None
              else (case boxplot valid of
                      Inl e \<Rightarrow> Inl e
                    | Inr u \<Rightarrow>
                        (case map_err mean_label valid of
                           Inl e \<Rightarrow> Inl e
                         | Inr ms \<Rightarrow> Inr (Some \<lparr>boxes = valid, mean_labels = ms\<rparr>)))))"

text \<open>Lines 178-211; the caller has checked that there are processing times.\<close>

definition create_processing_time_visualization :: "vresults \<Rightarrow> error + bar_chart_data" where
  "create_processing_time_visualization r =
     (case avg_times_by_freq (v_sk_frequencies r) (v_sk_processing_times r) of
        Inl e \<Rightarrow> Inl e
      | Inr avg_times \<Rightarrow> Inr (bar_chart avg_times))"

text \<open>
  Lines 213-258: the summary text, as the values formatted into its lines: the three
  headline numbers, one distribution line per frequency (name, count, percentage) and
  one average line per frequency that has values.
\<close>

record summary_data =
  summary_total_decisions :: nat
  summary_avg_economic_value :: real
  summary_avg_processing_time :: real
  distribution_lines :: "(string \<times> nat \<times> real) list"
  economic_lines :: "(string \<times> real) list"

definition create_summary_visualization :: "vresults \<Rightarrow> error + summary_data" where
  "create_summary_visualization r =
     (case Counter (v_sk_frequencies r) of Inl e \<Rightarrow> Inl e | Inr freq_distribution \<Rightarrow>
      case (if v_sk_economic_values r \<noteq> [] then np_mean (v_sk_economic_values r) else Inr 0) of
        Inl e \<Rightarrow> Inl e | Inr avg_ev \<Rightarrow>
      case group_by_freq (zip (v_sk_frequencies r) (v_sk_economic_values r)) of
        Inl e \<Rightarrow> Inl e | Inr freq_values \<Rightarrow>
      case map_err mean_label
             (filter (\<lambda>p. snd p \<noteq> [])
                (map (\<lambda>freq. (freq, group_get freq_values freq)) frequencies)) of
        Inl e \<Rightarrow> Inl e | Inr avgs \<Rightarrow>
      Inr \<lparr>summary_total_decisions = length (v_sk_frequencies r),
           summary_avg_economic_value = avg_ev,
           summary_avg_processing_time =
             (if v_sk_processing_times r \<noteq> [] then mean (v_sk_processing_times r) else 0),
           distribution_lines =
             map (freq_metric freq_distribution (length (v_sk_frequencies r))) frequencies,
           economic_lines = avgs\<rparr>)"

text \<open>
  Lines 62-83: the files written into the output directory. A \<open>None\<close> is a file that is
  not written.
\<close>

record visualizations =
  frequency_distribution_png :: frequency_chart_data
  economic_value_distribution_png :: "box_plot_data option"
  processing_time_png :: "bar_chart_data option"
  summary_png :: summary_data

definition create_visualizations :: "vresults \<Rightarrow> error + visualizations" where
  "create_visualizations r =
     (case create_frequency_distribution r of Inl e \<Rightarrow> Inl e | Inr fd \<Rightarrow>
      case create_economic_value_distribution r of Inl e \<Rightarrow> Inl e | Inr ed \<Rightarrow>
      case (if v_sk_processing_times r \<noteq> []
            then map_sum id Some (create_processing_time_visualization r) else Inr None) of
        Inl e \<Rightarrow> Inl e | Inr pt \<Rightarrow>
      case create_summary_visualization r of Inl e \<Rightarrow> Inl e | Inr sm \<Rightarrow>
      Inr \<lparr>frequency_distribution_png = fd,
           economic_value_distribution_png = ed,
           processing_time_png = pt,
           summary_png = sm\<rparr>)"

section \<open>The command lines\<close>

text \<open>
  \<^verbatim>\<open>load_data\<close>: the file system is a function from a file name to what opening the file
  and decoding it yields, \<open>None\<close> when either raises. The function returns Python's
  \<^verbatim>\<open>None\<close> in that case, which is also what the JSON text \<^verbatim>\<open>null\<close> decodes to.
\<close>

definition load_data :: "(string \<Rightarrow> json option) \<Rightarrow> string \<Rightarrow> json" where
  "load_data fs filename = (case fs filename of None \<Rightarrow> JNull | Some data \<Rightarrow> data)"

text \<open>
  How a run ends: \<^verbatim>\<open>sys.exit\<close> with a status after a last printed line, an exception
  that nothing catches, or the artifact written under a name.
\<close>

datatype 'a outcome = Exit nat string | Raised error | Wrote string 'a

text \<open>
  \<^verbatim>\<open>main\<close> of the dashboard script (lines 540-562). \<open>argv\<close> is \<^verbatim>\<open>sys.argv\<close>, \<open>now\<close> the
  formatted clock reading.
\<close>

definition dash_main :: "string list \<Rightarrow> string \<Rightarrow> (string \<Rightarrow> json option) \<Rightarrow> dashboard outcome" where
  "dash_main argv now fs =
     (if length argv < 2 then
        Exit 1 ''Usage: python generate-dashboard.py <benchmark_results.json> [output_file]''
      else
        (let input_file = argv ! 1;
             output_file = (if length argv > 2 then argv ! 2
                            else ''sk_router_dashboard_'' @ now @ ''.html'');
             data = load_data fs input_file
         in if \<not> truthy data then Exit 1 (''Could not load data from '' @ input_file)
            else (case dash_analyze_data data of
                    Inl e \<Rightarrow> Raised e
                  | Inr r \<Rightarrow>
                      (case generate_html_dashboard r of
                         Inl e \<Rightarrow> Raised e
                       | Inr d \<Rightarrow> Wrote output_file d))))"

text \<open>\<^verbatim>\<open>main\<close> of the visualization script (lines 260-284).\<close>

definition viz_main :: "string list \<Rightarrow> string \<Rightarrow> (string \<Rightarrow> json option) \<Rightarrow> visualizations outcome" where
  "viz_main argv now fs =
     (if length argv < 2 then
        Exit 1 (''Usage: python visualize-benchmark-results.py <benchmark_results.json> ''
                @ ''[output_directory]'')
      else
        (let input_file = argv ! 1;
             output_dir = (if length argv > 2 then argv ! 2 else ''benchmark_visualizations'')
                          @ ''_'' @ now;
             data = load_data fs input_file
         in if \<not> truthy data then Exit 1 (''Could not load data from '' @ input_file)
            else (case viz_analyze_data data of
                    Inl e \<Rightarrow> Raised e
                  | Inr r \<Rightarrow>
                      (case create_visualizations r of
                         Inl e \<Rightarrow> Raised e
                       | Inr v \<Rightarrow> Wrote output_dir v))))"

section \<open>What the claims speak of\<close>

text \<open>
  The qualifying records of an input array: the objects that have the
  \<^verbatim>\<open>RecommendedFrequency\<close> field, in input order.
\<close>

fun qualifying :: "json list \<Rightarrow> (string \<times> json) list list" where
  "qualifying [] = []"
| "qualifying (JObj kvs # items) =
     (if map_of kvs ''RecommendedFrequency'' \<noteq> None then kvs # qualifying items
      else qualifying items)"
| "qualifying (v # items) = qualifying items"

text \<open>The fields of a qualifying record as the dashboard script reads them.\<close>

definition frequency_of :: "(string \<times> json) list \<Rightarrow> json" where
  "frequency_of kvs = dict_get kvs ''RecommendedFrequency'' JNull"

definition success_of :: "(string \<times> json) list \<Rightarrow> json" where
  "success_of kvs = dict_get kvs ''WasSuccessful'' (JBool True)"

text \<open>The records recommended a frequency, among some records.\<close>

definition in_category :: "string \<Rightarrow> (string \<times> json) list list \<Rightarrow> (string \<times> json) list list" where
  "in_category freq recs = filter (\<lambda>kvs. frequency_of kvs = JStr freq) recs"

text \<open>The qualifying records whose frequency is one of the five labels.\<close>

definition labelled :: "(string \<times> json) list list \<Rightarrow> (string \<times> json) list list" where
  "labelled recs = filter (\<lambda>kvs. frequency_of kvs \<in> set (map JStr frequencies)) recs"

text \<open>
  The success rate of a category in the claim's words: the records of the category with
  a true success flag, over all records of the category, times 100; 0 for a category
  without records.
\<close>

definition spec_success_rate :: "(string \<times> json) list list \<Rightarrow> string \<Rightarrow> real" where
  "spec_success_rate recs freq =
     (let cat = in_category freq recs
      in if cat = [] then 0
         else real (length (filter (\<lambda>kvs. success_of kvs = JBool True) cat))
              / real (length cat) * 100)"

text \<open>An input object that has no \<^verbatim>\<open>RecommendedFrequency\<close> field.\<close>

fun lacks_frequency :: "json \<Rightarrow> bool" where
  "lacks_frequency (JObj kvs) = (map_of kvs ''RecommendedFrequency'' = None)"
| "lacks_frequency v = False"

text \<open>Five bars of height zero, and five breakdown rows of zero.\<close>

definition zero_bars :: "(string \<times> real) list" where
  "zero_bars = [(''immediate'', 0), (''continuous'', 0), (''analysis'', 0),
                (''optimization'', 0), (''evolution'', 0)]"

definition zero_counts :: "(string \<times> nat) list" where
  "zero_counts = [(''immediate'', 0), (''continuous'', 0), (''analysis'', 0),
                  (''optimization'', 0), (''evolution'', 0)]"

definition zero_rows :: "(string \<times> nat \<times> real) list" where
  "zero_rows = [(''immediate'', 0, 0), (''continuous'', 0, 0), (''analysis'', 0, 0),
                (''optimization'', 0, 0), (''evolution'', 0, 0)]"

text \<open>
  A view over the categories is complete when it lists the five labels in the fixed
  order and shows the zero value \<open>z\<close> for every label that no stored frequency equals.
\<close>

definition complete_view :: "json list \<Rightarrow> 'a \<Rightarrow> (string \<times> 'a) list \<Rightarrow> bool" where
  "complete_view freqs z view =
     (map fst view = frequencies
      \<and> list_all (\<lambda>freq. JStr freq \<in> set freqs \<or> (freq, z) \<in> set view) frequencies)"

text \<open>The labels that some stored frequency equals, in the fixed order.\<close>

definition occurring :: "json list \<Rightarrow> string list" where
  "occurring freqs = filter (\<lambda>freq. JStr freq \<in> set freqs) frequencies"

section \<open>Example inputs\<close>

text \<open>One record whose frequency is none of the five labels.\<close>

definition weekly_input :: "json list" where
  "weekly_input = [JObj [(''RecommendedFrequency'', JStr ''weekly''), (''Goal'', JStr ''g'')]]"

text \<open>
  The mixed input of the spec's last testable property: three "immediate" records, two
  of them successful, and two "evolution" records, both successful.
\<close>

definition mixed_input :: "json list" where
  "mixed_input =
     [JObj [(''RecommendedFrequency'', JStr ''immediate''), (''Goal'', JStr ''a'')],
      JObj [(''RecommendedFrequency'', JStr ''immediate''), (''Goal'', JStr ''b''),
            (''WasSuccessful'', JBool False)],
      JObj [(''RecommendedFrequency'', JStr ''evolution''), (''Goal'', JStr ''c'')],
      JObj [(''RecommendedFrequency'', JStr ''immediate''), (''Goal'', JStr ''d''),
            (''WasSuccessful'', JBool True)],
      JObj [(''RecommendedFrequency'', JStr ''evolution''), (''Goal'', JStr ''e'')]]"

definition mixed_results :: results where
  "mixed_results =
     \<lparr>sk_frequencies = [JStr ''immediate'', JStr ''immediate'', JStr ''evolution'',
                        JStr ''immediate'', JStr ''evolution''],
      sk_economic_values = [JInt 0, JInt 0, JInt 0, JInt 0, JInt 0],
      sk_processing_times = [],
      goals = [JStr ''a'', JStr ''b'', JStr ''c'', JStr ''d'', JStr ''e''],
      contexts = [JStr [], JStr [], JStr [], JStr [], JStr []],
      timestamps = [JStr [], JStr [], JStr [], JStr [], JStr []],
      successful = [JBool True, JBool False, JBool True, JBool True, JBool True]\<rparr>"

definition mixed_vresults :: vresults where
  "mixed_vresults =
     \<lparr>v_sk_frequencies = [JStr ''immediate'', JStr ''immediate'', JStr ''evolution'',
                          JStr ''immediate'', JStr ''evolution''],
      v_sk_economic_values = [JInt 0, JInt 0, JInt 0, JInt 0, JInt 0],
      v_sk_processing_times = []\<rparr>"

text \<open>A record whose execution time is in neither format.\<close>

definition malformed_input :: "json list" where
  "malformed_input =
     [JObj [(''RecommendedFrequency'', JStr ''immediate''), (''Goal'', JStr ''g''),
            (''ExecutionTime'', JStr ''abc'')]]"

text \<open>A record without execution time in front of one that has it.\<close>

definition misaligned_input :: "json list" where
  "misaligned_input =
     [JObj [(''RecommendedFrequency'', JStr ''immediate''), (''Goal'', JStr ''a'')],
      JObj [(''RecommendedFrequency'', JStr ''evolution''), (''Goal'', JStr ''b''),
            (''ExecutionTime'', JStr ''100000 Ticks'')]]"

text \<open>The result lists that the two scripts compute from \<open>misaligned_input\<close>.\<close>

definition misaligned_results :: results where
  "misaligned_results =
     \<lparr>sk_frequencies = [JStr ''immediate'', JStr ''evolution''],
      sk_economic_values = [JInt 0, JInt 0],
      sk_processing_times = [10],
      goals = [JStr ''a'', JStr ''b''],
      contexts = [JStr [], JStr []],
      timestamps = [JStr [], JStr []],
      successful = [JBool True, JBool True]\<rparr>"

definition misaligned_vresults :: vresults where
  "misaligned_vresults =
     \<lparr>v_sk_frequencies = [JStr ''immediate'', JStr ''evolution''],
      v_sk_economic_values = [JInt 0, JInt 0],
      v_sk_processing_times = [10]\<rparr>"

section \<open>Execution-time parsing\<close>

lemmas parse_defs =
  py_replace.simps py_int_def py_strip_def is_space_def digit_val_def digits_value_def
  py_float_def parse_mantissa_def parse_exponent_def opt_digits_def is_e_def lower_def
  in_float_range_def float_limit_def

lemmas range_defs = float_limit_def true_div_def int_to_float_def float_result_def

lemma ticks_100000: "py_int (py_replace '' Ticks'' [] ''100000 Ticks'') = IntValue 100000"
  by (simp add: parse_defs)

lemma true_div_100000: "true_div 100000 10000 = Inr 10"
  by (simp add: range_defs)

lemma colon_no_ticks: "py_int (py_replace '' Ticks'' [] ''0:00:01.5'') = IntInvalid"
  by (simp add: parse_defs)

lemma colon_parts: "py_split CHR '':'' ''0:00:01.5'' = [''0'', ''00'', ''01.5'']"
  by simp

lemma colon_values:
  "py_int ''0'' = IntValue 0" "py_int ''00'' = IntValue 0" "py_float ''01.5'' = FloatValue (3 / 2)"
  by (simp_all add: parse_defs)

lemma replace_keeps:
  "c \<in> set s \<Longrightarrow> c \<notin> set old \<Longrightarrow> c \<in> set (py_replace old new s)"
proof (induction old new s rule: py_replace.induct)
  case (1 old new s)
  show ?case
  proof (cases "old = []")
    case True
    with 1(3) show ?thesis by (subst py_replace.simps) auto
  next
    case False
    from 1(3) have ne: "s \<noteq> []" by auto
    show ?thesis
    proof (cases "take (length old) s = old")
      case True
      have "s = take (length old) s @ drop (length old) s" by simp
      with True have "set s = set old \<union> set (drop (length old) s)"
        by (metis set_append)
      with 1(3,4) have "c \<in> set (drop (length old) s)" by auto
      from 1(1) [OF False ne True this 1(4)] False ne True show ?thesis
        by (subst py_replace.simps) simp
    next
      case nt: False
      from ne have "s = hd s # tl s" by simp
      then have "set s = insert (hd s) (set (tl s))" by (metis list.simps(15))
      with 1(3) have "c = hd s \<or> c \<in> set (tl s)" by auto
      with 1(2) [OF False ne nt _ 1(4)] False ne nt show ?thesis
        by (subst py_replace.simps) auto
    qed
  qed
qed

lemma dropWhile_keeps: "x \<in> set xs \<Longrightarrow> \<not> P x \<Longrightarrow> x \<in> set (dropWhile P xs)"
  by (induction xs) auto

lemma strip_keeps: "x \<in> set s \<Longrightarrow> \<not> is_space x \<Longrightarrow> x \<in> set (py_strip s)"
  by (simp add: py_strip_def dropWhile_keeps)

lemma dec_digits_chars:
  "dec_digits r = Some ds \<Longrightarrow> c \<in> set r \<Longrightarrow> digit_val c \<noteq> None \<or> c = CHR ''_''"
  by (induction r arbitrary: ds rule: dec_digits.induct)
     (auto split: option.splits if_splits)

lemma colon_char:
  "\<not> is_space CHR '':''" "digit_val CHR '':'' = None" "CHR '':'' \<noteq> CHR ''_''"
  "CHR '':'' \<noteq> CHR ''-''" "CHR '':'' \<noteq> CHR ''+''" "CHR '':'' \<notin> set '' Ticks''"
  by (simp_all add: is_space_def digit_val_def)

lemma split_sign_keeps:
  "split_sign t = (sg, r) \<Longrightarrow> c \<in> set t \<Longrightarrow> c \<noteq> CHR ''-'' \<Longrightarrow> c \<noteq> CHR ''+'' \<Longrightarrow>
     c \<in> set r"
  by (cases t) (auto split: if_splits)

lemma colon_not_ticks:
  assumes "CHR '':'' \<in> set s"
  shows "py_int (py_replace '' Ticks'' [] s) = IntInvalid"
proof -
  let ?t = "py_strip (py_replace '' Ticks'' [] s)"
  from assms have "CHR '':'' \<in> set (py_replace '' Ticks'' [] s)"
    by (rule replace_keeps) (rule colon_char)
  then have t: "CHR '':'' \<in> set ?t"
    by (rule strip_keeps) (rule colon_char)
  obtain sg r where sr: "split_sign ?t = (sg, r)" by (cases "split_sign ?t")
  from sr t have "CHR '':'' \<in> set r"
    by (rule split_sign_keeps) (rule colon_char)+
  with dec_digits_chars [of r _ "CHR '':''"] colon_char have "dec_digits r = None"
    by (cases "dec_digits r") auto
  with sr show ?thesis by (simp add: py_int_def)
qed

lemma split_no_sep: "sep \<notin> set s \<Longrightarrow> py_split sep s = [s]"
  by (induction s) auto

lemma split_three_colon: "length (py_split CHR '':'' s) = 3 \<Longrightarrow> CHR '':'' \<in> set s"
  by (cases "CHR '':'' \<in> set s") (simp_all add: split_no_sep)

lemma timespan_value:
  assumes p: "py_split CHR '':'' s = [h, m, sec]"
    and h: "py_int h = IntValue hours" and m: "py_int m = IntValue minutes"
    and f: "py_float sec = FloatValue seconds"
    and w: "\<bar>hours * 3600 + minutes * 60\<bar> < float_limit"
    and r: "\<bar>(real_of_int hours * 3600 + real_of_int minutes * 60 + seconds) * 1000\<bar> < 2 ^ 1023"
  shows "timespan_ms s
           = Inr ((real_of_int hours * 3600 + real_of_int minutes * 60 + seconds) * 1000)"
proof -
  from w have i: "int_to_float (hours * 3600 + minutes * 60)
                    = Inr (real_of_int (hours * 3600 + minutes * 60))"
    by (simp add: int_to_float_def)
  from r have "float_result ((real_of_int (hours * 3600 + minutes * 60) + seconds) * 1000)
                 = Inr ((real_of_int hours * 3600 + real_of_int minutes * 60 + seconds) * 1000)"
    by (simp add: float_result_def)
  with p h m f i show ?thesis
    by (simp add: timespan_ms_def)
qed

lemma timespan_example: "timespan_ms ''0:00:01.5'' = Inr 1500"
  by (simp add: timespan_ms_def colon_parts colon_values range_defs)

text \<open>
  C4 (fails as stated). The claim gives both example conversions to both scripts. The
  visualization script has the tick conversion only, so the colon string makes its
  \<^verbatim>\<open>int\<close> raise ValueError, which nothing catches.
\<close>

theorem C4_counterexample:
  "viz_execution_time (JStr ''0:00:01.5'') = Inl ValueError
   \<and> viz_execution_time (JStr ''0:00:01.5'') \<noteq> Inr 1500"
  by (simp add: viz_execution_time_def colon_no_ticks)

text \<open>
  C4 (amended). In the dashboard script the tick format is tried first and the colon
  format second. A string whose tick count converts, with ticks / 10000 in the range of
  floats, gives ticks / 10000 milliseconds in both scripts; "100000 Ticks" gives 10.0.
  A string of three colon-separated parts is never a tick count; when its hours and
  minutes convert to integers and its seconds to a float, all within the range of
  floats, the dashboard script gives (hours * 3600 + minutes * 60 + seconds) * 1000
  milliseconds, and "0:00:01.5" gives 1500.0. The visualization script raises
  ValueError on every such string.
\<close>

theorem C4_execution_time_formats:
  "dash_execution_time (JStr ''100000 Ticks'') = Inr 10
   \<and> dash_execution_time (JStr ''0:00:01.5'') = Inr 1500
   \<and> viz_execution_time (JStr ''100000 Ticks'') = Inr 10
   \<and> viz_execution_time (JStr ''0:00:01.5'') = Inl ValueError
   \<and> (\<forall>s ticks. py_int (py_replace '' Ticks'' [] s) = IntValue ticks
          \<and> \<bar>real_of_int ticks / 10000\<bar> < real_of_int float_limit \<longrightarrow>
          dash_execution_time (JStr s) = Inr (real_of_int ticks / 10000)
          \<and> viz_execution_time (JStr s) = Inr (real_of_int ticks / 10000))
   \<and> (\<forall>s h m sec hours minutes seconds.
          py_split CHR '':'' s = [h, m, sec]
          \<and> py_int h = IntValue hours \<and> py_int m = IntValue minutes
          \<and> py_float sec = FloatValue seconds
          \<and> \<bar>hours * 3600 + minutes * 60\<bar> < float_limit
          \<and> \<bar>(real_of_int hours * 3600 + real_of_int minutes * 60 + seconds) * 1000\<bar>
              < 2 ^ 1023 \<longrightarrow>
          dash_execution_time (JStr s)
            = Inr ((real_of_int hours * 3600 + real_of_int minutes * 60 + seconds) * 1000)
          \<and> viz_execution_time (JStr s) = Inl ValueError)"
proof -
  have d1: "dash_execution_time (JStr ''100000 Ticks'') = Inr 10"
    by (simp add: dash_execution_time_def ticks_100000 true_div_100000)
  have d2: "dash_execution_time (JStr ''0:00:01.5'') = Inr 1500"
    by (simp add: dash_execution_time_def colon_no_ticks timespan_example)
  have v1: "viz_execution_time (JStr ''100000 Ticks'') = Inr 10"
    by (simp add: viz_execution_time_def ticks_100000 true_div_100000)
  have v2: "viz_execution_time (JStr ''0:00:01.5'') = Inl ValueError"
    by (simp add: viz_execution_time_def colon_no_ticks)
  have g: "\<forall>s ticks. py_int (py_replace '' Ticks'' [] s) = IntValue ticks
          \<and> \<bar>real_of_int ticks / 10000\<bar> < real_of_int float_limit \<longrightarrow>
          dash_execution_time (JStr s) = Inr (real_of_int ticks / 10000)
          \<and> viz_execution_time (JStr s) = Inr (real_of_int ticks / 10000)"
    by (simp add: dash_execution_time_def viz_execution_time_def true_div_def)
  have c: "dash_execution_time (JStr s)
            = Inr ((real_of_int hours * 3600 + real_of_int minutes * 60 + seconds) * 1000)
          \<and> viz_execution_time (JStr s) = Inl ValueError"
    if p: "py_split CHR '':'' s = [h, m, sec]"
      and h: "py_int h = IntValue hours" and m: "py_int m = IntValue minutes"
      and f: "py_float sec = FloatValue seconds"
      and w: "\<bar>hours * 3600 + minutes * 60\<bar> < float_limit"
      and r: "\<bar>(real_of_int hours * 3600 + real_of_int minutes * 60 + seconds) * 1000\<bar>
              < 2 ^ 1023"
    for s h m sec hours minutes seconds
  proof -
    from p have "length (py_split CHR '':'' s) = 3" by simp
    then have "py_int (py_replace '' Ticks'' [] s) = IntInvalid"
      by (intro colon_not_ticks split_three_colon)
    with timespan_value [OF p h m f w r] show ?thesis
      by (simp add: dash_execution_time_def viz_execution_time_def)
  qed
  from d1 d2 v1 v2 g c show ?thesis by blast
qed

lemma ticks_20000: "py_int (py_replace '' Ticks'' [] ''20000 Ticks'') = IntValue 20000"
  by (simp add: parse_defs)

lemma timespan_parts:
  "py_split CHR '':'' ''1:02:03.5'' = [''1'', ''02'', ''03.5'']"
  "py_int ''1'' = IntValue 1" "py_int ''02'' = IntValue 2"
  "py_float ''03.5'' = FloatValue (7 / 2)"
  by (simp_all add: parse_defs)

theorem C4_execution_time_formats_witness:
  "py_int (py_replace '' Ticks'' [] ''20000 Ticks'') = IntValue 20000
   \<and> dash_execution_time (JStr ''20000 Ticks'') = Inr 2
   \<and> viz_execution_time (JStr ''20000 Ticks'') = Inr 2
   \<and> py_split CHR '':'' ''1:02:03.5'' = [''1'', ''02'', ''03.5'']
   \<and> py_int ''1'' = IntValue 1 \<and> py_int ''02'' = IntValue 2
   \<and> py_float ''03.5'' = FloatValue (7 / 2)
   \<and> dash_execution_time (JStr ''1:02:03.5'') = Inr 3723500
   \<and> viz_execution_time (JStr ''1:02:03.5'') = Inl ValueError"
proof -
  note c = C4_execution_time_formats
  have r1: "\<bar>real_of_int 20000 / 10000\<bar> < real_of_int float_limit"
    by (simp add: float_limit_def)
  from c ticks_20000 r1
  have t: "dash_execution_time (JStr ''20000 Ticks'') = Inr (real_of_int 20000 / 10000)
        \<and> viz_execution_time (JStr ''20000 Ticks'') = Inr (real_of_int 20000 / 10000)"
    by blast
  have r2: "\<bar>(1::int) * 3600 + 2 * 60\<bar> < float_limit"
    by (simp add: float_limit_def)
  have r3: "\<bar>(real_of_int 1 * 3600 + real_of_int 2 * 60 + 7 / 2) * 1000\<bar> < 2 ^ 1023"
    by simp
  from c timespan_parts r2 r3
  have s: "dash_execution_time (JStr ''1:02:03.5'')
            = Inr ((real_of_int 1 * 3600 + real_of_int 2 * 60 + 7 / 2) * 1000)
          \<and> viz_execution_time (JStr ''1:02:03.5'') = Inl ValueError"
    by blast
  from t s ticks_20000 timespan_parts show ?thesis by simp
qed

section \<open>The analysis loops and the qualifying records\<close>

lemma qualifying_Cons: "qualifying (item # items) = qualifying [item] @ qualifying items"
  by (cases item) auto

lemma dash_store_fields:
  assumes "dash_store r kvs f = Inr r'"
  shows "sk_frequencies r' = sk_frequencies r @ [f]"
    and "successful r' = successful r @ [success_of kvs]"
    and "goals r' = goals r @ [dict_get kvs ''Goal'' (JStr [])]"
  using assms
  by (auto simp: dash_store_def Let_def success_of_def split: option.splits sum.splits)

lemma dash_item_cases:
  "dash_analyze_item r item =
     (case item of
        JObj kvs \<Rightarrow> (case map_of kvs ''RecommendedFrequency'' of
                      None \<Rightarrow> Inr r | Some f \<Rightarrow> dash_store r kvs f)
      | JStr s \<Rightarrow> if is_substring ''RecommendedFrequency'' s then Inl TypeError else Inr r
      | JList xs \<Rightarrow> if JStr ''RecommendedFrequency'' \<in> set xs then Inl TypeError else Inr r
      | _ \<Rightarrow> Inl TypeError)"
  by (cases item) (auto simp: dash_analyze_item_def split: option.splits)

lemma dash_item_fields:
  assumes "dash_analyze_item r item = Inr r'"
  shows "sk_frequencies r' = sk_frequencies r @ map frequency_of (qualifying [item])
         \<and> successful r' = successful r @ map success_of (qualifying [item])"
proof (cases item)
  case (JObj kvs)
  show ?thesis
  proof (cases "map_of kvs ''RecommendedFrequency''")
    case None
    with JObj assms show ?thesis by (simp add: dash_item_cases)
  next
    case (Some f)
    with JObj assms have "dash_store r kvs f = Inr r'" by (simp add: dash_item_cases)
    from dash_store_fields(1,2) [OF this] JObj Some show ?thesis
      by (simp add: frequency_of_def dict_get_def)
  qed
qed (use assms in \<open>simp_all add: dash_item_cases split: if_splits\<close>)

lemma dash_loop_fields:
  "dash_loop r items = Inr r' \<Longrightarrow>
     sk_frequencies r' = sk_frequencies r @ map frequency_of (qualifying items)
     \<and> successful r' = successful r @ map success_of (qualifying items)"
proof (induction items arbitrary: r)
  case Nil
  then show ?case by simp
next
  case (Cons item items)
  from Cons.prems obtain r1 where s: "dash_analyze_item r item = Inr r1"
    and l: "dash_loop r1 items = Inr r'"
    by (auto split: sum.splits)
  from Cons.IH [OF l] dash_item_fields [OF s] show ?case
    by (subst (1 2) qualifying_Cons) simp
qed

lemma viz_store_fields:
  assumes "viz_store r kvs f = Inr r'"
  shows "v_sk_frequencies r' = v_sk_frequencies r @ [f]"
  using assms
  by (auto simp: viz_store_def Let_def split: option.splits sum.splits)

lemma viz_item_cases:
  "viz_analyze_item r item =
     (case item of
        JObj kvs \<Rightarrow> (case map_of kvs ''RecommendedFrequency'' of
                      None \<Rightarrow> Inr r | Some f \<Rightarrow> viz_store r kvs f)
      | JStr s \<Rightarrow> if is_substring ''RecommendedFrequency'' s then Inl TypeError else Inr r
      | JList xs \<Rightarrow> if JStr ''RecommendedFrequency'' \<in> set xs then Inl TypeError else Inr r
      | _ \<Rightarrow> Inl TypeError)"
  by (cases item) (auto simp: viz_analyze_item_def split: option.splits)

lemma viz_item_fields:
  assumes "viz_analyze_item r item = Inr r'"
  shows "v_sk_frequencies r' = v_sk_frequencies r @ map frequency_of (qualifying [item])"
proof (cases item)
  case (JObj kvs)
  show ?thesis
  proof (cases "map_of kvs ''RecommendedFrequency''")
    case None
    with JObj assms show ?thesis by (simp add: viz_item_cases)
  next
    case (Some f)
    with JObj assms have "viz_store r kvs f = Inr r'" by (simp add: viz_item_cases)
    from viz_store_fields [OF this] JObj Some show ?thesis
      by (simp add: frequency_of_def dict_get_def)
  qed
qed (use assms in \<open>simp_all add: viz_item_cases split: if_splits\<close>)

lemma viz_loop_fields:
  "viz_loop r items = Inr r' \<Longrightarrow>
     v_sk_frequencies r' = v_sk_frequencies r @ map frequency_of (qualifying items)"
proof (induction items arbitrary: r)
  case Nil
  then show ?case by simp
next
  case (Cons item items)
  from Cons.prems obtain r1 where s: "viz_analyze_item r item = Inr r1"
    and l: "viz_loop r1 items = Inr r'"
    by (auto split: sum.splits)
  from Cons.IH [OF l] viz_item_fields [OF s] show ?case
    by (subst qualifying_Cons) simp
qed

lemma label_neq:
  "''immediate'' \<noteq> ''continuous''" "''immediate'' \<noteq> ''analysis''"
  "''immediate'' \<noteq> ''optimization''" "''immediate'' \<noteq> ''evolution''"
  "''continuous'' \<noteq> ''analysis''" "''continuous'' \<noteq> ''optimization''"
  "''continuous'' \<noteq> ''evolution''" "''analysis'' \<noteq> ''optimization''"
  "''analysis'' \<noteq> ''evolution''" "''optimization'' \<noteq> ''evolution''"
  by simp_all

lemma five_counts:
  "sum_list (map (counter_get c) frequencies)
     = length (filter (\<lambda>v. v \<in> set (map JStr frequencies)) c)"
proof (induction c)
  case Nil
  then show ?case by (simp add: frequencies_def counter_get_def)
next
  case (Cons v c)
  then show ?case
    by (cases v) (auto simp: frequencies_def counter_get_def)
qed

lemma five_heights:
  "map snd (zip frequencies (map f frequencies)) = map f frequencies"
  by (simp add: frequencies_def)

lemma five_counts_map:
  "sum_list (map (counter_get (map frequency_of recs)) frequencies)
     = length (labelled recs)"
  by (simp add: five_counts labelled_def filter_map comp_def)

lemma length_filter_eq:
  "length (filter P xs) = length xs \<longleftrightarrow> filter P xs = xs"
  by (metis filter_True length_filter_less nat_neq_iff filter_id_conv)

section \<open>Evaluating the example inputs\<close>

lemmas analyze_defs =
  dash_analyze_data_def dash_analyze_item_def dash_store_def
  viz_analyze_data_def viz_analyze_item_def viz_store_def
  dict_get_def empty_results_def empty_vresults_def Let_def

lemma mixed_dash: "dash_analyze_data (JList mixed_input) = Inr mixed_results"
  by (simp add: mixed_input_def mixed_results_def analyze_defs)

lemma mixed_viz: "viz_analyze_data (JList mixed_input) = Inr mixed_vresults"
  by (simp add: mixed_input_def mixed_vresults_def analyze_defs)

lemma mixed_chart:
  "create_frequency_chart mixed_results
     = Inr \<lparr>bar_heights = [(''immediate'', 3), (''continuous'', 0), (''analysis'', 0),
                           (''optimization'', 0), (''evolution'', 2)],
            count_labels = [(''immediate'', 3), (''evolution'', 2)],
            percent_labels = [(''immediate'', 60), (''evolution'', 40)]\<rparr>"
  by (simp add: mixed_results_def create_frequency_chart_def Counter_def
        counter_get_def frequencies_def)

lemma mixed_distribution:
  "create_frequency_distribution mixed_vresults
     = Inr \<lparr>bar_heights = [(''immediate'', 3), (''continuous'', 0), (''analysis'', 0),
                           (''optimization'', 0), (''evolution'', 2)],
            count_labels = [(''immediate'', 3), (''continuous'', 0), (''analysis'', 0),
                            (''optimization'', 0), (''evolution'', 2)],
            percent_labels = [(''immediate'', 60), (''evolution'', 40)]\<rparr>"
  by (simp add: mixed_vresults_def create_frequency_distribution_def Counter_def
        counter_get_def frequencies_def)

section \<open>Counts per frequency\<close>

text \<open>
  C1 (fails as stated). The claim lets the five counts add up to the number of
  qualifying records also when a record's frequency is none of the five labels. For the
  single record with the frequency "weekly" both scripts count zero for each label,
  while there is one qualifying record.
\<close>

theorem C1_counterexample:
  "dash_analyze_data (JList weekly_input)
     = Inr \<lparr>sk_frequencies = [JStr ''weekly''], sk_economic_values = [JInt 0],
            sk_processing_times = [], goals = [JStr ''g''], contexts = [JStr []],
            timestamps = [JStr []], successful = [JBool True]\<rparr>
   \<and> create_frequency_chart
        \<lparr>sk_frequencies = [JStr ''weekly''], sk_economic_values = [JInt 0],
         sk_processing_times = [], goals = [JStr ''g''], contexts = [JStr []],
         timestamps = [JStr []], successful = [JBool True]\<rparr>
     = Inr \<lparr>bar_heights = [(''immediate'', 0), (''continuous'', 0), (''analysis'', 0),
                           (''optimization'', 0), (''evolution'', 0)],
            count_labels = [], percent_labels = []\<rparr>
   \<and> viz_analyze_data (JList weekly_input)
     = Inr \<lparr>v_sk_frequencies = [JStr ''weekly''], v_sk_economic_values = [JInt 0],
            v_sk_processing_times = []\<rparr>
   \<and> create_frequency_distribution
        \<lparr>v_sk_frequencies = [JStr ''weekly''], v_sk_economic_values = [JInt 0],
         v_sk_processing_times = []\<rparr>
     = Inr \<lparr>bar_heights = [(''immediate'', 0), (''continuous'', 0), (''analysis'', 0),
                           (''optimization'', 0), (''evolution'', 0)],
            count_labels = [(''immediate'', 0), (''continuous'', 0), (''analysis'', 0),
                            (''optimization'', 0), (''evolution'', 0)],
            percent_labels = []\<rparr>
   \<and> length (qualifying weekly_input) = 1"
  by (simp add: weekly_input_def analyze_defs create_frequency_chart_def
        create_frequency_distribution_def Counter_def counter_get_def frequencies_def)

text \<open>
  C1 (amended). For every input array on which the analysis and the frequency chart
  complete, the five counts add up to the number of qualifying records whose frequency
  is one of the five labels, in both scripts. That number is the number of all
  qualifying records exactly when every qualifying record has one of the five labels.
\<close>

theorem C1_counts_sum:
  "(\<forall>r ch. dash_analyze_data (JList items) = Inr r \<and> create_frequency_chart r = Inr ch \<longrightarrow>
      sum_list (map snd (bar_heights ch)) = length (labelled (qualifying items)))
   \<and> (\<forall>r ch. viz_analyze_data (JList items) = Inr r
              \<and> create_frequency_distribution r = Inr ch \<longrightarrow>
      sum_list (map snd (bar_heights ch)) = length (labelled (qualifying items)))
   \<and> (length (labelled (qualifying items)) = length (qualifying items)
        \<longleftrightarrow> list_all (\<lambda>kvs. frequency_of kvs \<in> set (map JStr frequencies))
              (qualifying items))"
proof -
  have d: "sum_list (map snd (bar_heights ch)) = length (labelled (qualifying items))"
    if a: "dash_analyze_data (JList items) = Inr r" and c: "create_frequency_chart r = Inr ch"
    for r ch
  proof -
    from a have "dash_loop empty_results items = Inr r"
      by (simp add: dash_analyze_data_def)
    from dash_loop_fields [OF this]
    have f: "sk_frequencies r = map frequency_of (qualifying items)"
      by (simp add: empty_results_def)
    from c have "bar_heights ch
        = zip frequencies (map (counter_get (sk_frequencies r)) frequencies)"
      by (auto simp: create_frequency_chart_def Counter_def Let_def split: if_splits)
    then show ?thesis
      by (simp add: five_heights f five_counts_map)
  qed
  have v: "sum_list (map snd (bar_heights ch)) = length (labelled (qualifying items))"
    if a: "viz_analyze_data (JList items) = Inr r"
      and c: "create_frequency_distribution r = Inr ch"
    for r ch
  proof -
    from a have "viz_loop empty_vresults items = Inr r"
      by (simp add: viz_analyze_data_def)
    from viz_loop_fields [OF this]
    have f: "v_sk_frequencies r = map frequency_of (qualifying items)"
      by (simp add: empty_vresults_def)
    from c have "bar_heights ch
        = zip frequencies (map (counter_get (v_sk_frequencies r)) frequencies)"
      by (auto simp: create_frequency_distribution_def Counter_def Let_def split: if_splits)
    then show ?thesis
      by (simp add: five_heights f five_counts_map)
  qed
  have e: "length (labelled (qualifying items)) = length (qualifying items)
        \<longleftrightarrow> list_all (\<lambda>kvs. frequency_of kvs \<in> set (map JStr frequencies))
              (qualifying items)"
    unfolding labelled_def length_filter_eq
    by (simp add: filter_id_conv list_all_iff)
  from d v e show ?thesis by blast
qed

theorem C1_counts_sum_witness:
  "dash_analyze_data (JList mixed_input) = Inr mixed_results
   \<and> create_frequency_chart mixed_results
       = Inr \<lparr>bar_heights = [(''immediate'', 3), (''continuous'', 0), (''analysis'', 0),
                             (''optimization'', 0), (''evolution'', 2)],
              count_labels = [(''immediate'', 3), (''evolution'', 2)],
              percent_labels = [(''immediate'', 60), (''evolution'', 40)]\<rparr>
   \<and> viz_analyze_data (JList mixed_input) = Inr mixed_vresults
   \<and> create_frequency_distribution mixed_vresults
       = Inr \<lparr>bar_heights = [(''immediate'', 3), (''continuous'', 0), (''analysis'', 0),
                             (''optimization'', 0), (''evolution'', 2)],
              count_labels = [(''immediate'', 3), (''continuous'', 0), (''analysis'', 0),
                              (''optimization'', 0), (''evolution'', 2)],
              percent_labels = [(''immediate'', 60), (''evolution'', 40)]\<rparr>
   \<and> length (labelled (qualifying mixed_input)) = 5
   \<and> length (qualifying mixed_input) = 5"
proof -
  have q: "length (qualifying mixed_input) = 5"
    by (simp add: mixed_input_def)
  from C1_counts_sum [of mixed_input] mixed_dash mixed_chart
  have "sum_list (map snd (bar_heights
          \<lparr>bar_heights = [(''immediate'', 3::nat), (''continuous'', 0), (''analysis'', 0),
                          (''optimization'', 0), (''evolution'', 2)],
           count_labels = [(''immediate'', 3), (''evolution'', 2)],
           percent_labels = [(''immediate'', 60), (''evolution'', 40)]\<rparr>))
        = length (labelled (qualifying mixed_input))"
    by blast
  then have "length (labelled (qualifying mixed_input)) = 5" by simp
  with q mixed_dash mixed_chart mixed_viz mixed_distribution show ?thesis by simp
qed

section \<open>Malformed execution times\<close>

lemma abc_parse:
  "py_int (py_replace '' Ticks'' [] ''abc'') = IntInvalid"
  "py_split CHR '':'' ''abc'' = [''abc'']"
  by (simp_all add: parse_defs)

lemma dash_store_malformed:
  assumes "map_of kvs ''ExecutionTime'' = Some (JStr s)"
    and "py_int (py_replace '' Ticks'' [] s) = IntInvalid"
    and "length (py_split CHR '':'' s) \<noteq> 3"
  shows "\<exists>r'. dash_store r kvs f = Inr r'
            \<and> sk_processing_times r' = sk_processing_times r @ [0]"
  using assms by (simp add: dash_store_def dash_execution_time_def timespan_ms_def Let_def)

lemma viz_store_malformed:
  assumes "map_of kvs ''ExecutionTime'' = Some (JStr s)"
    and "py_int (py_replace '' Ticks'' [] s) = IntInvalid"
  shows "viz_store r kvs f = Inl (if map_of kvs ''Goal'' = None then KeyError else ValueError)"
  using assms by (auto simp: viz_store_def viz_execution_time_def Let_def split: option.splits)

text \<open>
  C2 (fails as stated). The claim says that in both scripts a record whose execution
  time is in neither format is processed without error and contributes no value. For the
  execution time "abc" the dashboard script appends 0 to the processing times, and the
  visualization script raises ValueError.
\<close>

theorem C2_counterexample:
  "dash_analyze_data (JList malformed_input)
     = Inr \<lparr>sk_frequencies = [JStr ''immediate''], sk_economic_values = [JInt 0],
            sk_processing_times = [0], goals = [JStr ''g''], contexts = [JStr []],
            timestamps = [JStr []], successful = [JBool True]\<rparr>
   \<and> viz_analyze_data (JList malformed_input) = Inl ValueError"
  by (simp add: malformed_input_def analyze_defs dash_execution_time_def timespan_ms_def
        viz_execution_time_def abc_parse)

text \<open>
  C2 (amended). For a qualifying record whose execution time is a string that, once
  " Ticks" is removed, is not an integer numeral (\<^verbatim>\<open>int\<close> raises ValueError): if the
  string does not split into exactly three parts at its colons, the dashboard script
  processes the record without error and appends 0 to the processing times (the record
  is counted with 0 ms, not dropped); the visualization script raises on the record
  (ValueError, or KeyError before that when the record has no Goal).
\<close>

theorem C2_malformed_execution_time:
  assumes "map_of kvs ''RecommendedFrequency'' = Some f"
    and "map_of kvs ''ExecutionTime'' = Some (JStr s)"
    and "py_int (py_replace '' Ticks'' [] s) = IntInvalid"
  shows "(length (py_split CHR '':'' s) \<noteq> 3 \<longrightarrow>
           (\<exists>r'. dash_analyze_item r (JObj kvs) = Inr r'
                 \<and> sk_processing_times r' = sk_processing_times r @ [0]))
         \<and> viz_analyze_item vr (JObj kvs)
             = Inl (if map_of kvs ''Goal'' = None then KeyError else ValueError)"
  using assms dash_store_malformed [of kvs s r f] viz_store_malformed [of kvs s vr f]
  by (simp add: dash_item_cases viz_item_cases)

theorem C2_malformed_execution_time_witness:
  "map_of [(''RecommendedFrequency'', JStr ''immediate''), (''Goal'', JStr ''g''),
           (''ExecutionTime'', JStr ''abc'')] ''RecommendedFrequency'' = Some (JStr ''immediate'')
   \<and> map_of [(''RecommendedFrequency'', JStr ''immediate''), (''Goal'', JStr ''g''),
             (''ExecutionTime'', JStr ''abc'')] ''ExecutionTime'' = Some (JStr ''abc'')
   \<and> py_int (py_replace '' Ticks'' [] ''abc'') = IntInvalid
   \<and> length (py_split CHR '':'' ''abc'') \<noteq> 3
   \<and> (\<exists>r'. dash_analyze_item empty_results
               (JObj [(''RecommendedFrequency'', JStr ''immediate''), (''Goal'', JStr ''g''),
                      (''ExecutionTime'', JStr ''abc'')]) = Inr r'
            \<and> sk_processing_times r' = [0])
   \<and> viz_analyze_item empty_vresults
        (JObj [(''RecommendedFrequency'', JStr ''immediate''), (''Goal'', JStr ''g''),
               (''ExecutionTime'', JStr ''abc'')]) = Inl ValueError"
proof -
  have h1: "map_of [(''RecommendedFrequency'', JStr ''immediate''), (''Goal'', JStr ''g''),
           (''ExecutionTime'', JStr ''abc'')] ''RecommendedFrequency'' = Some (JStr ''immediate'')"
    by simp
  have h2: "map_of [(''RecommendedFrequency'', JStr ''immediate''), (''Goal'', JStr ''g''),
             (''ExecutionTime'', JStr ''abc'')] ''ExecutionTime'' = Some (JStr ''abc'')"
    by simp
  have h3: "py_int (py_replace '' Ticks'' [] ''abc'') = IntInvalid"
    by (rule abc_parse)
  have h4: "length (py_split CHR '':'' ''abc'') \<noteq> 3"
    by (simp add: abc_parse)
  from C2_malformed_execution_time [OF h1 h2 h3, of empty_results empty_vresults] h1 h2 h3 h4
  show ?thesis by (simp add: empty_results_def)
qed

section \<open>Processing times per frequency\<close>

text \<open>
  C3 (the code differs). The claim attributes each parsed time to the frequency of the
  record it came from. Both scripts pair the list of frequencies with the shorter list
  of processing times by position, so a time moves to an earlier record's frequency as
  soon as a record before it has no execution time. Here the only time, 10 ms, belongs
  to the "evolution" record and is reported as the average of "immediate", while
  "evolution" is reported as 0.
\<close>

theorem C3_misattributed_time:
  "dash_analyze_data (JList misaligned_input)
     = Inr \<lparr>sk_frequencies = [JStr ''immediate'', JStr ''evolution''],
            sk_economic_values = [JInt 0, JInt 0],
            sk_processing_times = [10], goals = [JStr ''a'', JStr ''b''],
            contexts = [JStr [], JStr []],
            timestamps = [JStr [], JStr []], successful = [JBool True, JBool True]\<rparr>
   \<and> create_processing_time_chart
        \<lparr>sk_frequencies = [JStr ''immediate'', JStr ''evolution''],
            sk_economic_values = [JInt 0, JInt 0],
            sk_processing_times = [10], goals = [JStr ''a'', JStr ''b''],
            contexts = [JStr [], JStr []],
            timestamps = [JStr [], JStr []], successful = [JBool True, JBool True]\<rparr>
     = Inr (Some \<lparr>bars = [(''immediate'', 10), (''continuous'', 0), (''analysis'', 0),
                          (''optimization'', 0), (''evolution'', 0)],
                   value_labels = [(''immediate'', 10)]\<rparr>)
   \<and> viz_analyze_data (JList misaligned_input)
     = Inr \<lparr>v_sk_frequencies = [JStr ''immediate'', JStr ''evolution''],
            v_sk_economic_values = [JInt 0, JInt 0], v_sk_processing_times = [10]\<rparr>
   \<and> create_processing_time_visualization
        \<lparr>v_sk_frequencies = [JStr ''immediate'', JStr ''evolution''],
            v_sk_economic_values = [JInt 0, JInt 0], v_sk_processing_times = [10]\<rparr>
     = Inr \<lparr>bars = [(''immediate'', 10), (''continuous'', 0), (''analysis'', 0),
                          (''optimization'', 0), (''evolution'', 0)],
                   value_labels = [(''immediate'', 10)]\<rparr>"
  by (simp add: misaligned_input_def analyze_defs dash_execution_time_def
        viz_execution_time_def ticks_100000 true_div_100000 create_processing_time_chart_def
        create_processing_time_visualization_def avg_times_by_freq_def group_by_freq_def
        group_get_def bar_chart_def mean_def frequencies_def)

section \<open>Objects without the frequency field\<close>

lemma dash_loop_append:
  "dash_loop r (xs @ ys) = (case dash_loop r xs of Inl e \<Rightarrow> Inl e | Inr r' \<Rightarrow> dash_loop r' ys)"
  by (induction xs arbitrary: r) (auto split: sum.splits)

lemma viz_loop_append:
  "viz_loop r (xs @ ys) = (case viz_loop r xs of Inl e \<Rightarrow> Inl e | Inr r' \<Rightarrow> viz_loop r' ys)"
  by (induction xs arbitrary: r) (auto split: sum.splits)

lemma qualifying_append: "qualifying (xs @ ys) = qualifying xs @ qualifying ys"
proof (induction xs)
  case Nil
  show ?case by simp
next
  case (Cons x xs)
  from Cons qualifying_Cons [of x "xs @ ys"] qualifying_Cons [of x xs] show ?case
    by simp
qed

text \<open>
  C5. An object without the \<^verbatim>\<open>RecommendedFrequency\<close> field, anywhere in the input array,
  leaves the analysis of both scripts exactly as it is without the object: the same
  result lists or the same error, and the same qualifying records. Every count, mean,
  rate and table row is computed from the result lists alone, so the dashboard and the
  images are the same too.
\<close>

theorem C5_skipped:
  assumes "map_of kvs ''RecommendedFrequency'' = None"
  shows "dash_analyze_data (JList (xs @ JObj kvs # ys)) = dash_analyze_data (JList (xs @ ys))
       \<and> viz_analyze_data (JList (xs @ JObj kvs # ys)) = viz_analyze_data (JList (xs @ ys))
       \<and> qualifying (xs @ JObj kvs # ys) = qualifying (xs @ ys)
       \<and> (case dash_analyze_data (JList (xs @ JObj kvs # ys)) of
             Inl e \<Rightarrow> Inl e | Inr r \<Rightarrow> generate_html_dashboard r)
         = (case dash_analyze_data (JList (xs @ ys)) of
             Inl e \<Rightarrow> Inl e | Inr r \<Rightarrow> generate_html_dashboard r)
       \<and> (case viz_analyze_data (JList (xs @ JObj kvs # ys)) of
             Inl e \<Rightarrow> Inl e | Inr r \<Rightarrow> create_visualizations r)
         = (case viz_analyze_data (JList (xs @ ys)) of
             Inl e \<Rightarrow> Inl e | Inr r \<Rightarrow> create_visualizations r)"
proof -
  have d: "dash_loop r (JObj kvs # ys) = dash_loop r ys" for r
    using assms by (simp add: dash_item_cases)
  have v: "viz_loop r (JObj kvs # ys) = viz_loop r ys" for r
    using assms by (simp add: viz_item_cases)
  have q: "qualifying (xs @ JObj kvs # ys) = qualifying (xs @ ys)"
    using assms by (simp add: qualifying_append)
  have da: "dash_analyze_data (JList (xs @ JObj kvs # ys)) = dash_analyze_data (JList (xs @ ys))"
    by (simp add: dash_analyze_data_def dash_loop_append d split: sum.splits
        del: dash_loop.simps)
  have va: "viz_analyze_data (JList (xs @ JObj kvs # ys)) = viz_analyze_data (JList (xs @ ys))"
    by (simp add: viz_analyze_data_def viz_loop_append v split: sum.splits
        del: viz_loop.simps)
  from da va q show ?thesis by simp
qed

theorem C5_skipped_witness:
  "map_of [(''Other'', JInt 1)] ''RecommendedFrequency'' = None
   \<and> dash_analyze_data (JList (JObj [(''Other'', JInt 1)] # weekly_input))
       = dash_analyze_data (JList weekly_input)
   \<and> viz_analyze_data (JList (JObj [(''Other'', JInt 1)] # weekly_input))
       = viz_analyze_data (JList weekly_input)
   \<and> qualifying (JObj [(''Other'', JInt 1)] # weekly_input) = qualifying weekly_input"
proof -
  have h: "map_of [(''Other'', JInt 1)] ''RecommendedFrequency'' = None"
    by simp
  from C5_skipped [OF h, of "[]" weekly_input] h show ?thesis
    by simp
qed

section \<open>Falsy input\<close>

text \<open>
  C9. When the input file is found and decodes to a falsy value, such as the empty
  array, both command lines print the could-not-load line and exit with status 1, and
  nothing is written: the run ends exactly as it does when loading the file fails.
\<close>

theorem C9_falsy_data:
  assumes "2 \<le> length argv" and "fs (argv ! 1) = Some data" and "\<not> truthy data"
  shows "dash_main argv now fs = Exit 1 (''Could not load data from '' @ argv ! 1)
       \<and> dash_main argv now fs = dash_main argv now (fs(argv ! 1 := None))
       \<and> viz_main argv now fs = Exit 1 (''Could not load data from '' @ argv ! 1)
       \<and> viz_main argv now fs = viz_main argv now (fs(argv ! 1 := None))"
  using assms by (simp add: dash_main_def viz_main_def load_data_def Let_def)

theorem C9_falsy_data_witness:
  "2 \<le> length [''prog'', ''results.json'']
   \<and> \<not> truthy (JList [])
   \<and> dash_main [''prog'', ''results.json''] ''20240101_000000'' (\<lambda>f. Some (JList []))
       = Exit 1 ''Could not load data from results.json''
   \<and> viz_main [''prog'', ''results.json''] ''20240101_000000'' (\<lambda>f. Some (JList []))
       = Exit 1 ''Could not load data from results.json''"
proof -
  have h1: "2 \<le> length [''prog'', ''results.json'']" by simp
  have h2: "(\<lambda>f. Some (JList [])) ([''prog'', ''results.json''] ! 1) = Some (JList [])"
    by simp
  have h3: "\<not> truthy (JList [])" by simp
  from C9_falsy_data [OF h1 h2 h3, of "''20240101_000000''"] h1 h3 show ?thesis
    by simp
qed

section \<open>A record without a goal\<close>

text \<open>
  C10. For a single record that has the frequency field and no \<^verbatim>\<open>Goal\<close> field, the
  analysis of the visualization script raises KeyError, while the analysis of the
  dashboard script, whenever it returns, has stored the empty string as the goal; it
  does return when the record has no execution time.
\<close>

theorem C10_missing_goal:
  assumes "map_of kvs ''RecommendedFrequency'' = Some f" and "map_of kvs ''Goal'' = None"
  shows "viz_analyze_data (JList [JObj kvs]) = Inl KeyError
       \<and> (\<forall>r. dash_analyze_data (JList [JObj kvs]) = Inr r \<longrightarrow> goals r = [JStr []])
       \<and> (map_of kvs ''ExecutionTime'' = None \<longrightarrow>
            (\<exists>r. dash_analyze_data (JList [JObj kvs]) = Inr r))"
proof -
  have v: "viz_analyze_data (JList [JObj kvs]) = Inl KeyError"
    using assms by (simp add: viz_analyze_data_def viz_item_cases viz_store_def)
  have g: "goals r = [JStr []]" if "dash_analyze_data (JList [JObj kvs]) = Inr r" for r
  proof -
    from that assms have "dash_store empty_results kvs f = Inr r"
      by (simp add: dash_analyze_data_def dash_item_cases split: sum.splits)
    from dash_store_fields(3) [OF this] assms show ?thesis
      by (simp add: empty_results_def dict_get_def)
  qed
  have t: "\<exists>r. dash_analyze_data (JList [JObj kvs]) = Inr r"
    if "map_of kvs ''ExecutionTime'' = None"
    using that assms by (simp add: dash_analyze_data_def dash_item_cases dash_store_def Let_def)
  from v g t show ?thesis by blast
qed

theorem C10_missing_goal_witness:
  "map_of [(''RecommendedFrequency'', JStr ''immediate'')] ''RecommendedFrequency''
     = Some (JStr ''immediate'')
   \<and> map_of [(''RecommendedFrequency'', JStr ''immediate'')] ''Goal'' = None
   \<and> viz_analyze_data (JList [JObj [(''RecommendedFrequency'', JStr ''immediate'')]])
       = Inl KeyError
   \<and> (\<exists>r. dash_analyze_data (JList [JObj [(''RecommendedFrequency'', JStr ''immediate'')]])
            = Inr r \<and> goals r = [JStr []])"
proof -
  have h1: "map_of [(''RecommendedFrequency'', JStr ''immediate'')] ''RecommendedFrequency''
     = Some (JStr ''immediate'')" by simp
  have h2: "map_of [(''RecommendedFrequency'', JStr ''immediate'')] ''Goal'' = None" by simp
  have h3: "map_of [(''RecommendedFrequency'', JStr ''immediate'')] ''ExecutionTime'' = None"
    by simp
  from C10_missing_goal [OF h1 h2] h3
  have "viz_analyze_data (JList [JObj [(''RecommendedFrequency'', JStr ''immediate'')]])
          = Inl KeyError"
    and "\<exists>r. dash_analyze_data (JList [JObj [(''RecommendedFrequency'', JStr ''immediate'')]])
            = Inr r \<and> goals r = [JStr []]"
    by blast+
  with h1 h2 show ?thesis by blast
qed

section \<open>Success rates\<close>

lemma map_err_Inr:
  "(\<And>x. x \<in> set xs \<Longrightarrow> f x = Inr (g x)) \<Longrightarrow> map_err f xs = Inr (map g xs)"
  by (induction xs) auto

lemma nums_bools:
  "(\<forall>v\<in>set vs. \<exists>b. v = JBool b) \<Longrightarrow>
     nums vs = Some (map (\<lambda>v. if v = JBool True then 1 else 0) vs)"
  by (induction vs) (auto split: if_splits)

lemma sum_indicator:
  "sum_list (map (\<lambda>v. if P v then 1 else 0) vs) = real (length (filter P vs))"
  by (induction vs) auto

lemma rate_of_bools:
  assumes "\<forall>v\<in>set vs. \<exists>b. v = JBool b"
  shows "rate_of vs = Inr (real (length (filter (\<lambda>v. v = JBool True) vs))
                          / real (length vs) * 100)"
  using nums_bools [OF assms] sum_indicator [of "\<lambda>v. v = JBool True" vs]
  by (simp add: rate_of_def py_sum_def)

lemma group_get_records:
  "group_get (zip (map f recs) (map g recs)) freq
     = map g (filter (\<lambda>kvs. f kvs = JStr freq) recs)"
  by (induction recs) (auto simp: group_get_def)

lemma spec_success_rate_bounds:
  "0 \<le> spec_success_rate recs freq \<and> spec_success_rate recs freq \<le> 100"
proof -
  let ?cat = "in_category freq recs"
  have "length (filter (\<lambda>kvs. success_of kvs = JBool True) ?cat) \<le> length ?cat"
    by simp
  then have "real (length (filter (\<lambda>kvs. success_of kvs = JBool True) ?cat))
               \<le> real (length ?cat)"
    by linarith
  then show ?thesis
    by (auto simp: spec_success_rate_def Let_def divide_le_eq)
qed

text \<open>
  C7. For every input array that the dashboard script analyses without error, whose
  qualifying records have hashable frequencies and boolean success flags (the default
  flag is \<^verbatim>\<open>True\<close>), the success-rate chart is produced and the rate of each of the five
  categories is the number of its records with a true flag over the number of its
  records, times 100, and 0 for a category without records. Every such rate lies
  between 0 and 100.
\<close>

theorem C7_success_rate:
  assumes a: "dash_analyze_data (JList items) = Inr r"
    and h: "list_all hashable (map frequency_of (qualifying items))"
    and b: "\<forall>kvs\<in>set (qualifying items). \<exists>b. success_of kvs = JBool b"
  shows "(\<exists>ch. create_success_rate_chart r = Inr ch
              \<and> bars ch = map (\<lambda>freq. (freq, spec_success_rate (qualifying items) freq))
                             frequencies)
       \<and> (\<forall>freq. 0 \<le> spec_success_rate (qualifying items) freq
                \<and> spec_success_rate (qualifying items) freq \<le> 100)
       \<and> (\<forall>freq. in_category freq (qualifying items) = [] \<longrightarrow>
                spec_success_rate (qualifying items) freq = 0)"
proof -
  let ?Q = "qualifying items"
  from a have "dash_loop empty_results items = Inr r"
    by (simp add: dash_analyze_data_def)
  from dash_loop_fields [OF this]
  have f: "sk_frequencies r = map frequency_of ?Q" and s: "successful r = map success_of ?Q"
    by (simp_all add: empty_results_def)
  have g: "group_by_freq (zip (sk_frequencies r) (successful r))
             = Inr (zip (map frequency_of ?Q) (map success_of ?Q))"
    using h by (auto simp: group_by_freq_def f s list_all_iff dest!: set_zip_leftD)
  have rate: "(let successes = group_get (zip (map frequency_of ?Q) (map success_of ?Q)) freq
               in if successes \<noteq> [] then rate_of successes else Inr 0)
              = Inr (spec_success_rate ?Q freq)" for freq
  proof -
    let ?cat = "in_category freq ?Q"
    have bs: "\<forall>v\<in>set (map success_of ?cat). \<exists>b. v = JBool b"
      using b by (auto simp: in_category_def)
    have len: "length (filter (\<lambda>v. v = JBool True) (map success_of ?cat))
                 = length (filter (\<lambda>kvs. success_of kvs = JBool True) ?cat)"
      by (simp add: filter_map comp_def)
    show ?thesis
      using rate_of_bools [OF bs] len
      by (simp add: group_get_records spec_success_rate_def Let_def in_category_def)
  qed
  have "create_success_rate_chart r
          = Inr (bar_chart (map (spec_success_rate ?Q) frequencies))"
    unfolding create_success_rate_chart_def g
    by (simp add: map_err_Inr [where g = "spec_success_rate ?Q"] rate)
  moreover have "bars (bar_chart (map (spec_success_rate ?Q) frequencies))
                   = map (\<lambda>freq. (freq, spec_success_rate ?Q freq)) frequencies"
    by (simp add: bar_chart_def zip_map2 zip_same_conv_map)
  ultimately have c: "\<exists>ch. create_success_rate_chart r = Inr ch
              \<and> bars ch = map (\<lambda>freq. (freq, spec_success_rate ?Q freq)) frequencies"
    by simp
  have z: "\<forall>freq. in_category freq ?Q = [] \<longrightarrow> spec_success_rate ?Q freq = 0"
    by (simp add: spec_success_rate_def)
  from c spec_success_rate_bounds z show ?thesis by blast
qed

theorem C7_success_rate_witness:
  "dash_analyze_data (JList mixed_input) = Inr mixed_results
   \<and> list_all hashable (map frequency_of (qualifying mixed_input))
   \<and> list_all (\<lambda>kvs. \<exists>b. success_of kvs = JBool b) (qualifying mixed_input)
   \<and> (\<exists>ch. create_success_rate_chart mixed_results = Inr ch
         \<and> bars ch = [(''immediate'', 200 / 3), (''continuous'', 0), (''analysis'', 0),
                      (''optimization'', 0), (''evolution'', 100)])"
proof -
  have h2: "list_all hashable (map frequency_of (qualifying mixed_input))"
    by (simp add: mixed_input_def frequency_of_def dict_get_def)
  have h3: "\<forall>kvs\<in>set (qualifying mixed_input). \<exists>b. success_of kvs = JBool b"
    by (auto simp: mixed_input_def success_of_def dict_get_def)
  have v: "map (\<lambda>freq. (freq, spec_success_rate (qualifying mixed_input) freq)) frequencies
             = [(''immediate'', 200 / 3), (''continuous'', 0), (''analysis'', 0),
                (''optimization'', 0), (''evolution'', 100)]"
    by (simp add: spec_success_rate_def in_category_def mixed_input_def frequency_of_def
          success_of_def dict_get_def frequencies_def)
  from C7_success_rate [OF mixed_dash h2 h3] v mixed_dash h2 h3 show ?thesis
    by (simp add: list_all_iff)
qed

section \<open>No qualifying record\<close>

lemma dash_item_skip:
  "dash_analyze_item r item = Inr r' \<Longrightarrow> qualifying [item] = [] \<Longrightarrow> r' = r"
  by (cases item) (auto simp: dash_item_cases split: option.splits if_splits)

lemma viz_item_skip:
  "viz_analyze_item r item = Inr r' \<Longrightarrow> qualifying [item] = [] \<Longrightarrow> r' = r"
  by (cases item) (auto simp: viz_item_cases split: option.splits if_splits)

lemma dash_loop_skip:
  "dash_loop r items = Inr r' \<Longrightarrow> qualifying items = [] \<Longrightarrow> r' = r"
proof (induction items arbitrary: r)
  case Nil
  then show ?case by simp
next
  case (Cons item items)
  from Cons.prems(1) obtain r1 where s: "dash_analyze_item r item = Inr r1"
    and l: "dash_loop r1 items = Inr r'"
    by (auto split: sum.splits)
  from Cons.prems(2) have q: "qualifying [item] = []" "qualifying items = []"
    using qualifying_Cons [of item items] by simp_all
  from Cons.IH [OF l q(2)] dash_item_skip [OF s q(1)] show ?case by simp
qed

lemma viz_loop_skip:
  "viz_loop r items = Inr r' \<Longrightarrow> qualifying items = [] \<Longrightarrow> r' = r"
proof (induction items arbitrary: r)
  case Nil
  then show ?case by simp
next
  case (Cons item items)
  from Cons.prems(1) obtain r1 where s: "viz_analyze_item r item = Inr r1"
    and l: "viz_loop r1 items = Inr r'"
    by (auto split: sum.splits)
  from Cons.prems(2) have q: "qualifying [item] = []" "qualifying items = []"
    using qualifying_Cons [of item items] by simp_all
  from Cons.IH [OF l q(2)] viz_item_skip [OF s q(1)] show ?case by simp
qed

lemma dash_loop_lacking: "list_all lacks_frequency items \<Longrightarrow> dash_loop r items = Inr r"
proof (induction items)
  case Nil
  show ?case by simp
next
  case (Cons item items)
  then show ?case by (cases item) (simp_all add: dash_item_cases)
qed

lemma viz_loop_lacking: "list_all lacks_frequency items \<Longrightarrow> viz_loop r items = Inr r"
proof (induction items)
  case Nil
  show ?case by simp
next
  case (Cons item items)
  then show ?case by (cases item) (simp_all add: viz_item_cases)
qed

lemma empty_dashboard:
  "generate_html_dashboard empty_results
     = Inr \<lparr>frequency_chart =
              \<lparr>bar_heights = zero_counts, count_labels = [], percent_labels = []\<rparr>,
            economic_chart = \<lparr>bars = zero_bars, value_labels = []\<rparr>,
            processing_time_chart = None,
            success_chart = \<lparr>bars = zero_bars, value_labels = []\<rparr>,
            total_decisions = 0,
            avg_economic_value = 0,
            avg_processing_time = 0,
            success_rate = 0,
            freq_metrics_html = zero_rows,
            sample_decisions_html = []\<rparr>"
  by (simp add: generate_html_dashboard_def empty_results_def create_frequency_chart_def
        create_economic_chart_def create_processing_time_chart_def
        create_success_rate_chart_def Counter_def counter_get_def group_by_freq_def
        group_get_def bar_chart_def freq_metric_def frequencies_def zero_counts_def
        zero_bars_def zero_rows_def)

lemma empty_visualizations:
  "create_visualizations empty_vresults
     = Inr \<lparr>frequency_distribution_png =
              \<lparr>bar_heights = zero_counts, count_labels = zero_counts, percent_labels = []\<rparr>,
            economic_value_distribution_png = None,
            processing_time_png = None,
            summary_png =
              \<lparr>summary_total_decisions = 0,
               summary_avg_economic_value = 0,
               summary_avg_processing_time = 0,
               distribution_lines = zero_rows,
               economic_lines = []\<rparr>\<rparr>"
  by (simp add: create_visualizations_def empty_vresults_def create_frequency_distribution_def
        create_economic_value_distribution_def create_summary_visualization_def
        Counter_def counter_get_def group_by_freq_def
        group_get_def freq_metric_def frequencies_def zero_counts_def
        zero_rows_def)

text \<open>
  C8. An input array of objects that all lack the frequency field is analysed without
  error by both scripts and gives the empty result lists, and no other input with zero
  qualifying records gives anything else. On the empty result lists both renderers
  return without raising. The dashboard reports 0 for the total, for the three averages
  and rates, and for the count and percentage of each of the five categories, with an
  empty sample table and without the processing-time chart. The visualization script
  writes the frequency distribution and the summary with the same zeros, and skips the
  economic-value and processing-time images.
\<close>

theorem C8_zero_records:
  "(list_all lacks_frequency items \<longrightarrow>
      dash_analyze_data (JList items) = Inr empty_results
      \<and> viz_analyze_data (JList items) = Inr empty_vresults)
   \<and> (\<forall>r. qualifying items = [] \<and> dash_analyze_data (JList items) = Inr r \<longrightarrow>
          r = empty_results)
   \<and> (\<forall>r. qualifying items = [] \<and> viz_analyze_data (JList items) = Inr r \<longrightarrow>
          r = empty_vresults)
   \<and> generate_html_dashboard empty_results
       = Inr \<lparr>frequency_chart =
                \<lparr>bar_heights = zero_counts, count_labels = [], percent_labels = []\<rparr>,
              economic_chart = \<lparr>bars = zero_bars, value_labels = []\<rparr>,
              processing_time_chart = None,
              success_chart = \<lparr>bars = zero_bars, value_labels = []\<rparr>,
              total_decisions = 0,
              avg_economic_value = 0,
              avg_processing_time = 0,
              success_rate = 0,
              freq_metrics_html = zero_rows,
              sample_decisions_html = []\<rparr>
   \<and> create_visualizations empty_vresults
       = Inr \<lparr>frequency_distribution_png =
                \<lparr>bar_heights = zero_counts, count_labels = zero_counts,
                 percent_labels = []\<rparr>,
              economic_value_distribution_png = None,
              processing_time_png = None,
              summary_png =
                \<lparr>summary_total_decisions = 0,
                 summary_avg_economic_value = 0,
                 summary_avg_processing_time = 0,
                 distribution_lines = zero_rows,
                 economic_lines = []\<rparr>\<rparr>"
proof -
  have a: "list_all lacks_frequency items \<longrightarrow>
      dash_analyze_data (JList items) = Inr empty_results
      \<and> viz_analyze_data (JList items) = Inr empty_vresults"
    by (simp add: dash_analyze_data_def viz_analyze_data_def dash_loop_lacking
        viz_loop_lacking)
  have d: "\<forall>r. qualifying items = [] \<and> dash_analyze_data (JList items) = Inr r \<longrightarrow>
          r = empty_results"
    using dash_loop_skip [of empty_results items] by (simp add: dash_analyze_data_def)
  have v: "\<forall>r. qualifying items = [] \<and> viz_analyze_data (JList items) = Inr r \<longrightarrow>
          r = empty_vresults"
    using viz_loop_skip [of empty_vresults items] by (simp add: viz_analyze_data_def)
  from a d v empty_dashboard empty_visualizations show ?thesis
    by (intro conjI)
qed

theorem C8_zero_records_witness:
  "list_all lacks_frequency [JObj [(''Other'', JInt 1)]]
   \<and> qualifying [JObj [(''Other'', JInt 1)]] = []
   \<and> dash_analyze_data (JList [JObj [(''Other'', JInt 1)]]) = Inr empty_results
   \<and> viz_analyze_data (JList [JObj [(''Other'', JInt 1)]]) = Inr empty_vresults
   \<and> (\<exists>d. dash_main [''prog'', ''in.json''] ''t'' (\<lambda>f. Some (JList [JObj [(''Other'', JInt 1)]]))
            = Wrote ''sk_router_dashboard_t.html'' d
          \<and> total_decisions d = 0 \<and> freq_metrics_html d = zero_rows)
   \<and> (\<exists>v. viz_main [''prog'', ''in.json''] ''t'' (\<lambda>f. Some (JList [JObj [(''Other'', JInt 1)]]))
            = Wrote ''benchmark_visualizations_t'' v
          \<and> summary_total_decisions (summary_png v) = 0
          \<and> economic_value_distribution_png v = None)"
proof -
  have h: "list_all lacks_frequency [JObj [(''Other'', JInt 1)]]" by simp
  have q: "qualifying [JObj [(''Other'', JInt 1)]] = []" by simp
  note c = C8_zero_records [of "[JObj [(''Other'', JInt 1)]]"]
  from c h have a: "dash_analyze_data (JList [JObj [(''Other'', JInt 1)]]) = Inr empty_results"
    "viz_analyze_data (JList [JObj [(''Other'', JInt 1)]]) = Inr empty_vresults"
    by blast+
  from c have g: "\<exists>d. generate_html_dashboard empty_results = Inr d
                      \<and> total_decisions d = 0 \<and> freq_metrics_html d = zero_rows"
    by simp
  from c have w: "\<exists>v. create_visualizations empty_vresults = Inr v
                      \<and> summary_total_decisions (summary_png v) = 0
                      \<and> economic_value_distribution_png v = None"
    by simp
  from g a(1) have dm: "\<exists>d. dash_main [''prog'', ''in.json''] ''t''
                (\<lambda>f. Some (JList [JObj [(''Other'', JInt 1)]]))
            = Wrote ''sk_router_dashboard_t.html'' d
          \<and> total_decisions d = 0 \<and> freq_metrics_html d = zero_rows"
    by (auto simp: dash_main_def load_data_def Let_def)
  from w a(2) have vm: "\<exists>v. viz_main [''prog'', ''in.json''] ''t''
                (\<lambda>f. Some (JList [JObj [(''Other'', JInt 1)]]))
            = Wrote ''benchmark_visualizations_t'' v
          \<and> summary_total_decisions (summary_png v) = 0
          \<and> economic_value_distribution_png v = None"
    by (auto simp: viz_main_def load_data_def Let_def)
  from h q a dm vm show ?thesis by blast
qed

section \<open>The five categories in every view\<close>

lemma map_err_length: "map_err f xs = Inr ys \<Longrightarrow> length ys = length xs"
  by (induction xs arbitrary: ys) (auto split: sum.splits)

lemma map_err_member:
  "map_err f xs = Inr ys \<Longrightarrow> x \<in> set xs \<Longrightarrow> f x = Inr y \<Longrightarrow> (x, y) \<in> set (zip xs ys)"
  by (induction xs arbitrary: ys) (auto split: sum.splits)

lemma group_get_absent: "JStr freq \<notin> set freqs \<Longrightarrow> group_get (zip freqs vals) freq = []"
  by (auto simp: group_get_def filter_empty_conv dest: set_zip_leftD)

lemma counter_get_absent: "JStr freq \<notin> set freqs \<Longrightarrow> counter_get freqs freq = 0"
  by (simp add: counter_get_def)

lemma group_get_present:
  "length freqs \<le> length vals \<Longrightarrow>
     (group_get (zip freqs vals) freq \<noteq> []) = (JStr freq \<in> set freqs)"
proof -
  assume l: "length freqs \<le> length vals"
  have "(group_get (zip freqs vals) freq \<noteq> []) = (JStr freq \<in> set (map fst (zip freqs vals)))"
    by (force simp: group_get_def filter_empty_conv)
  also from l have "map fst (zip freqs vals) = freqs"
    by (simp add: map_fst_zip_take)
  finally show ?thesis .
qed

lemma zip_map_member: "x \<in> set xs \<Longrightarrow> (x, f x) \<in> set (zip xs (map f xs))"
  by (induction xs) auto

lemma complete_map:
  assumes "\<And>freq. JStr freq \<notin> set freqs \<Longrightarrow> f freq = z"
  shows "complete_view freqs z (zip frequencies (map f frequencies))"
proof -
  have "JStr freq \<in> set freqs \<or> (freq, z) \<in> set (zip frequencies (map f frequencies))"
    if "freq \<in> set frequencies" for freq
    using zip_map_member [OF that, of f] assms [of freq] by auto
  then show ?thesis
    by (simp add: complete_view_def list_all_iff)
qed

lemma complete_map_err:
  assumes m: "map_err f frequencies = Inr vals"
    and z: "\<And>freq. JStr freq \<notin> set freqs \<Longrightarrow> f freq = Inr z"
  shows "complete_view freqs z (zip frequencies vals)"
proof -
  from map_err_length [OF m] have "map fst (zip frequencies vals) = frequencies"
    by simp
  moreover have "JStr freq \<in> set freqs \<or> (freq, z) \<in> set (zip frequencies vals)"
    if "freq \<in> set frequencies" for freq
    using map_err_member [OF m that] z [of freq] by blast
  ultimately show ?thesis
    by (simp add: complete_view_def list_all_iff)
qed

lemma mean_labels_fst: "map_err mean_label ps = Inr ms \<Longrightarrow> map fst ms = map fst ps"
  by (induction ps arbitrary: ms) (auto simp: mean_label_def split: sum.splits)

lemma valid_groups:
  "length freqs \<le> length vals \<Longrightarrow>
   map fst (filter (\<lambda>p. snd p \<noteq> [])
              (map (\<lambda>freq. (freq, group_get (zip freqs vals) freq)) frequencies))
     = occurring freqs"
  by (simp add: filter_map comp_def occurring_def group_get_present)

lemma map_pair_zip: "map (\<lambda>x. (x, g x)) xs = zip xs (map g xs)"
  by (induction xs) auto

lemma rows_complete:
  "complete_view freqs (0, 0) (map (freq_metric freqs n) frequencies)"
proof -
  have "map (freq_metric freqs n) frequencies
          = zip frequencies
              (map (\<lambda>freq. (counter_get freqs freq,
                              if n > 0 then real (counter_get freqs freq) / real n * 100 else 0))
                 frequencies)"
    by (simp add: freq_metric_def Let_def map_pair_zip [symmetric])
  then show ?thesis
    by (simp add: complete_map counter_get_absent)
qed

lemma view_frequency_chart:
  "create_frequency_chart r = Inr ch \<Longrightarrow> complete_view (sk_frequencies r) 0 (bar_heights ch)"
  by (auto simp: create_frequency_chart_def Counter_def Let_def complete_map
        counter_get_absent split: if_splits)

lemma view_frequency_distribution:
  "create_frequency_distribution vr = Inr ch \<Longrightarrow>
     complete_view (v_sk_frequencies vr) 0 (bar_heights ch)"
  by (auto simp: create_frequency_distribution_def Counter_def Let_def complete_map
        counter_get_absent split: if_splits)

lemma view_economic_chart:
  assumes "create_economic_chart r = Inr ch"
  shows "complete_view (sk_frequencies r) 0 (bars ch)"
proof -
  let ?g = "zip (sk_frequencies r) (sk_economic_values r)"
  let ?f = "\<lambda>freq. let vals = group_get ?g freq in if vals \<noteq> [] then np_mean vals else Inr 0"
  from assms obtain avg_values where m: "map_err ?f frequencies = Inr avg_values"
    and b: "bars ch = zip frequencies avg_values"
    by (auto simp: create_economic_chart_def group_by_freq_def bar_chart_def
          split: if_splits sum.splits)
  have "complete_view (sk_frequencies r) 0 (zip frequencies avg_values)"
    by (rule complete_map_err [OF m]) (simp add: group_get_absent)
  with b show ?thesis by simp
qed

lemma view_success_chart:
  assumes "create_success_rate_chart r = Inr ch"
  shows "complete_view (sk_frequencies r) 0 (bars ch)"
proof -
  let ?g = "zip (sk_frequencies r) (successful r)"
  let ?f = "\<lambda>freq. let successes = group_get ?g freq
                   in if successes \<noteq> [] then rate_of successes else Inr 0"
  from assms obtain rates where m: "map_err ?f frequencies = Inr rates"
    and b: "bars ch = zip frequencies rates"
    by (auto simp: create_success_rate_chart_def group_by_freq_def bar_chart_def
          split: if_splits sum.splits)
  have "complete_view (sk_frequencies r) 0 (zip frequencies rates)"
    by (rule complete_map_err [OF m]) (simp add: group_get_absent)
  with b show ?thesis by simp
qed

lemma view_avg_times:
  "avg_times_by_freq freqs tms = Inr avg_times \<Longrightarrow>
     complete_view freqs 0 (bars (bar_chart avg_times))"
  by (auto simp: avg_times_by_freq_def group_by_freq_def bar_chart_def complete_map
        group_get_absent split: if_splits)

lemma view_processing_chart:
  "create_processing_time_chart r = Inr (Some ch) \<Longrightarrow>
     complete_view (sk_frequencies r) 0 (bars ch)"
  by (auto simp: create_processing_time_chart_def view_avg_times split: if_splits sum.splits)

lemma view_processing_visualization:
  "create_processing_time_visualization vr = Inr ch \<Longrightarrow>
     complete_view (v_sk_frequencies vr) 0 (bars ch)"
  by (auto simp: create_processing_time_visualization_def view_avg_times split: sum.splits)

lemma view_dashboard_rows:
  "generate_html_dashboard r = Inr d \<Longrightarrow>
     complete_view (sk_frequencies r) (0, 0) (freq_metrics_html d)"
  by (auto simp: generate_html_dashboard_def Counter_def rows_complete
        split: sum.splits if_splits)

lemma valid_groups_empty:
  "map fst (filter (\<lambda>p. snd p \<noteq> [])
              (map (\<lambda>freq. (freq, group_get [] freq)) frequencies))
     = occurring []"
  by (simp add: group_get_def occurring_def)

lemma view_summary:
  assumes "create_summary_visualization vr = Inr sm"
  shows "complete_view (v_sk_frequencies vr) (0, 0) (distribution_lines sm)"
    and "length (v_sk_frequencies vr) = length (v_sk_economic_values vr) \<Longrightarrow>
           map fst (economic_lines sm) = occurring (v_sk_frequencies vr)"
  using assms
  by (auto simp: create_summary_visualization_def Counter_def group_by_freq_def
        rows_complete mean_labels_fst valid_groups valid_groups_empty
        split: sum.splits if_splits)

lemma view_box_plot:
  assumes "create_economic_value_distribution vr = Inr (Some bp)"
    and "length (v_sk_frequencies vr) = length (v_sk_economic_values vr)"
  shows "map fst (boxes bp) = occurring (v_sk_frequencies vr)
       \<and> map fst (mean_labels bp) = occurring (v_sk_frequencies vr)"
  using assms
  by (auto simp: create_economic_value_distribution_def group_by_freq_def Let_def
        mean_labels_fst valid_groups valid_groups_empty split: sum.splits if_splits)

lemma viz_store_lengths:
  "viz_store r kvs f = Inr r' \<Longrightarrow>
     length (v_sk_economic_values r') = Suc (length (v_sk_economic_values r))"
  by (auto simp: viz_store_def Let_def split: option.splits sum.splits)

lemma viz_item_lengths:
  assumes "viz_analyze_item r item = Inr r'"
    and "length (v_sk_frequencies r) = length (v_sk_economic_values r)"
  shows "length (v_sk_frequencies r') = length (v_sk_economic_values r')"
proof (cases item)
  case (JObj kvs)
  show ?thesis
  proof (cases "map_of kvs ''RecommendedFrequency''")
    case None
    with JObj assms show ?thesis by (simp add: viz_item_cases)
  next
    case (Some f)
    with JObj assms have "viz_store r kvs f = Inr r'" by (simp add: viz_item_cases)
    from viz_store_fields [OF this] viz_store_lengths [OF this] assms(2) show ?thesis
      by simp
  qed
qed (use assms in \<open>simp_all add: viz_item_cases split: if_splits\<close>)

lemma viz_loop_lengths:
  "viz_loop r items = Inr r' \<Longrightarrow>
   length (v_sk_frequencies r) = length (v_sk_economic_values r) \<Longrightarrow>
   length (v_sk_frequencies r') = length (v_sk_economic_values r')"
proof (induction items arbitrary: r)
  case Nil
  then show ?case by simp
next
  case (Cons item items)
  from Cons.prems(1) obtain r1 where s: "viz_analyze_item r item = Inr r1"
    and l: "viz_loop r1 items = Inr r'"
    by (auto split: sum.splits)
  from Cons.IH [OF l viz_item_lengths [OF s Cons.prems(2)]] show ?case .
qed

lemma misaligned_viz: "viz_analyze_data (JList misaligned_input) = Inr misaligned_vresults"
  by (simp add: misaligned_input_def misaligned_vresults_def analyze_defs
        viz_execution_time_def ticks_100000 true_div_100000)

lemma misaligned_dash: "dash_analyze_data (JList misaligned_input) = Inr misaligned_results"
  by (simp add: misaligned_input_def misaligned_results_def analyze_defs
        dash_execution_time_def ticks_100000 true_div_100000)

lemmas chart_defs =
  Counter_def counter_get_def group_by_freq_def group_get_def bar_chart_def mean_def
  frequencies_def np_mean_def mean_label_def freq_metric_def rate_of_def py_sum_def
  avg_times_by_freq_def boxplot_def

text \<open>
  C6 (fails as stated). The claim has every per-frequency view present all five
  categories, a category without records shown as zero. The box plot of the
  visualization script and the average lines of its summary leave such categories out:
  with records for "immediate" and "evolution" only, they show these two and nothing
  for the other three.
\<close>

theorem C6_counterexample:
  "create_economic_value_distribution misaligned_vresults
     = Inr (Some \<lparr>boxes = [(''immediate'', [JInt 0]), (''evolution'', [JInt 0])],
                   mean_labels = [(''immediate'', 0), (''evolution'', 0)]\<rparr>)
   \<and> create_summary_visualization misaligned_vresults
     = Inr \<lparr>summary_total_decisions = 2,
            summary_avg_economic_value = 0,
            summary_avg_processing_time = 10,
            distribution_lines = [(''immediate'', 1, 50), (''continuous'', 0, 0),
                                  (''analysis'', 0, 0), (''optimization'', 0, 0),
                                  (''evolution'', 1, 50)],
            economic_lines = [(''immediate'', 0), (''evolution'', 0)]\<rparr>
   \<and> [''immediate'', ''evolution''] \<noteq> frequencies"
  by (simp add: misaligned_vresults_def create_economic_value_distribution_def
        create_summary_visualization_def chart_defs)

text \<open>
  C6 (amended). Every bar chart and every count listing presents the five categories in
  the fixed order, with zero for a category that no record has: in the dashboard the
  frequency, economic-value, processing-time (when it is drawn) and success-rate charts
  and the frequency breakdown, in the visualization script the frequency distribution,
  the processing-time chart and the distribution lines of the summary. The box plot of
  the visualization script and the average lines of its summary present, for an
  analysed input, exactly the categories that have a record, in the fixed order.
\<close>

theorem C6_category_views:
  "(\<forall>ch. create_frequency_chart r = Inr ch \<longrightarrow>
        complete_view (sk_frequencies r) 0 (bar_heights ch))
   \<and> (\<forall>ch. create_economic_chart r = Inr ch \<longrightarrow>
        complete_view (sk_frequencies r) 0 (bars ch))
   \<and> (\<forall>ch. create_processing_time_chart r = Inr (Some ch) \<longrightarrow>
        complete_view (sk_frequencies r) 0 (bars ch))
   \<and> (\<forall>ch. create_success_rate_chart r = Inr ch \<longrightarrow>
        complete_view (sk_frequencies r) 0 (bars ch))
   \<and> (\<forall>d. generate_html_dashboard r = Inr d \<longrightarrow>
        complete_view (sk_frequencies r) (0, 0) (freq_metrics_html d))
   \<and> (\<forall>ch. create_frequency_distribution vr = Inr ch \<longrightarrow>
        complete_view (v_sk_frequencies vr) 0 (bar_heights ch))
   \<and> (\<forall>ch. create_processing_time_visualization vr = Inr ch \<longrightarrow>
        complete_view (v_sk_frequencies vr) 0 (bars ch))
   \<and> (\<forall>sm. create_summary_visualization vr = Inr sm \<longrightarrow>
        complete_view (v_sk_frequencies vr) (0, 0) (distribution_lines sm))
   \<and> (\<forall>items sm. viz_analyze_data (JList items) = Inr vr
          \<and> create_summary_visualization vr = Inr sm \<longrightarrow>
        map fst (economic_lines sm) = occurring (v_sk_frequencies vr))
   \<and> (\<forall>items bp. viz_analyze_data (JList items) = Inr vr
          \<and> create_economic_value_distribution vr = Inr (Some bp) \<longrightarrow>
        map fst (boxes bp) = occurring (v_sk_frequencies vr)
        \<and> map fst (mean_labels bp) = occurring (v_sk_frequencies vr))"
proof -
  have len: "length (v_sk_frequencies vr) = length (v_sk_economic_values vr)"
    if "viz_analyze_data (JList items) = Inr vr" for items
  proof -
    from that have "viz_loop empty_vresults items = Inr vr"
      by (simp add: viz_analyze_data_def)
    from viz_loop_lengths [OF this] show ?thesis
      by (simp add: empty_vresults_def)
  qed
  have s: "\<forall>items sm. viz_analyze_data (JList items) = Inr vr
          \<and> create_summary_visualization vr = Inr sm \<longrightarrow>
        map fst (economic_lines sm) = occurring (v_sk_frequencies vr)"
    using len view_summary(2) by blast
  have b: "\<forall>items bp. viz_analyze_data (JList items) = Inr vr
          \<and> create_economic_value_distribution vr = Inr (Some bp) \<longrightarrow>
        map fst (boxes bp) = occurring (v_sk_frequencies vr)
        \<and> map fst (mean_labels bp) = occurring (v_sk_frequencies vr)"
    using len view_box_plot by blast
  show ?thesis
    using view_frequency_chart [of r] view_economic_chart [of r]
      view_processing_chart [of r] view_success_chart [of r] view_dashboard_rows [of r]
      view_frequency_distribution [of vr] view_processing_visualization [of vr]
      view_summary(1) [of vr] s b
    by (intro conjI allI impI) blast+
qed

theorem C6_category_views_witness:
  "(\<exists>ch. create_frequency_chart misaligned_results = Inr ch
         \<and> complete_view (sk_frequencies misaligned_results) 0 (bar_heights ch))
   \<and> (\<exists>ch. create_economic_chart misaligned_results = Inr ch
         \<and> complete_view (sk_frequencies misaligned_results) 0 (bars ch))
   \<and> (\<exists>ch. create_processing_time_chart misaligned_results = Inr (Some ch)
         \<and> complete_view (sk_frequencies misaligned_results) 0 (bars ch))
   \<and> (\<exists>ch. create_success_rate_chart misaligned_results = Inr ch
         \<and> complete_view (sk_frequencies misaligned_results) 0 (bars ch))
   \<and> (\<exists>d. generate_html_dashboard misaligned_results = Inr d
         \<and> complete_view (sk_frequencies misaligned_results) (0, 0) (freq_metrics_html d))
   \<and> (\<exists>ch. create_frequency_distribution misaligned_vresults = Inr ch
         \<and> complete_view (v_sk_frequencies misaligned_vresults) 0 (bar_heights ch))
   \<and> (\<exists>ch. create_processing_time_visualization misaligned_vresults = Inr ch
         \<and> complete_view (v_sk_frequencies misaligned_vresults) 0 (bars ch))
   \<and> (\<exists>sm. create_summary_visualization misaligned_vresults = Inr sm
         \<and> complete_view (v_sk_frequencies misaligned_vresults) (0, 0) (distribution_lines sm)
         \<and> map fst (economic_lines sm) = [''immediate'', ''evolution''])
   \<and> (\<exists>bp. create_economic_value_distribution misaligned_vresults = Inr (Some bp)
         \<and> map fst (boxes bp) = [''immediate'', ''evolution''])
   \<and> viz_analyze_data (JList misaligned_input) = Inr misaligned_vresults"
proof -
  note c = C6_category_views [of misaligned_results misaligned_vresults]
  have e1: "\<exists>ch. create_frequency_chart misaligned_results = Inr ch"
    by (simp add: misaligned_results_def create_frequency_chart_def chart_defs)
  have e2: "\<exists>ch. create_economic_chart misaligned_results = Inr ch"
    by (simp add: misaligned_results_def create_economic_chart_def chart_defs)
  have e3: "\<exists>ch. create_processing_time_chart misaligned_results = Inr (Some ch)"
    by (simp add: misaligned_results_def create_processing_time_chart_def chart_defs)
  have e4: "\<exists>ch. create_success_rate_chart misaligned_results = Inr ch"
    by (simp add: misaligned_results_def create_success_rate_chart_def chart_defs)
  have e5: "\<exists>d. generate_html_dashboard misaligned_results = Inr d"
    by (simp add: misaligned_results_def generate_html_dashboard_def
          create_frequency_chart_def create_economic_chart_def
          create_processing_time_chart_def create_success_rate_chart_def
          sample_decision_def py_index_def upt_rec chart_defs)
  have e6: "\<exists>ch. create_frequency_distribution misaligned_vresults = Inr ch"
    by (simp add: misaligned_vresults_def create_frequency_distribution_def chart_defs)
  have e7: "\<exists>ch. create_processing_time_visualization misaligned_vresults = Inr ch"
    by (simp add: misaligned_vresults_def create_processing_time_visualization_def chart_defs)
  have e8: "\<exists>sm. create_summary_visualization misaligned_vresults = Inr sm"
    by (simp add: misaligned_vresults_def create_summary_visualization_def chart_defs)
  have e9: "\<exists>bp. create_economic_value_distribution misaligned_vresults = Inr (Some bp)"
    by (simp add: misaligned_vresults_def create_economic_value_distribution_def chart_defs)
  have o: "occurring (v_sk_frequencies misaligned_vresults) = [''immediate'', ''evolution'']"
    by (simp add: misaligned_vresults_def occurring_def frequencies_def)
  from c e1 have w1: "\<exists>ch. create_frequency_chart misaligned_results = Inr ch
         \<and> complete_view (sk_frequencies misaligned_results) 0 (bar_heights ch)"
    by blast
  from c e2 have w2: "\<exists>ch. create_economic_chart misaligned_results = Inr ch
         \<and> complete_view (sk_frequencies misaligned_results) 0 (bars ch)"
    by blast
  from c e3 have w3: "\<exists>ch. create_processing_time_chart misaligned_results = Inr (Some ch)
         \<and> complete_view (sk_frequencies misaligned_results) 0 (bars ch)"
    by blast
  from c e4 have w4: "\<exists>ch. create_success_rate_chart misaligned_results = Inr ch
         \<and> complete_view (sk_frequencies misaligned_results) 0 (bars ch)"
    by blast
  from c e5 have w5: "\<exists>d. generate_html_dashboard misaligned_results = Inr d
         \<and> complete_view (sk_frequencies misaligned_results) (0, 0) (freq_metrics_html d)"
    by blast
  from c e6 have w6: "\<exists>ch. create_frequency_distribution misaligned_vresults = Inr ch
         \<and> complete_view (v_sk_frequencies misaligned_vresults) 0 (bar_heights ch)"
    by blast
  from c e7 have w7: "\<exists>ch. create_processing_time_visualization misaligned_vresults = Inr ch
         \<and> complete_view (v_sk_frequencies misaligned_vresults) 0 (bars ch)"
    by blast
  from c e8 misaligned_viz
  have w8: "\<exists>sm. create_summary_visualization misaligned_vresults = Inr sm
         \<and> complete_view (v_sk_frequencies misaligned_vresults) (0, 0) (distribution_lines sm)
         \<and> map fst (economic_lines sm) = occurring (v_sk_frequencies misaligned_vresults)"
    by blast
  from c e9 misaligned_viz
  have w9: "\<exists>bp. create_economic_value_distribution misaligned_vresults = Inr (Some bp)
         \<and> map fst (boxes bp) = occurring (v_sk_frequencies misaligned_vresults)"
    by blast
  from w1 w2 w3 w4 w5 w6 w7 w8 w9 misaligned_viz show ?thesis
    unfolding o by (intro conjI)
qed

end
